theory Spec2Isabelle
  imports Complex_Main "HOL-Library.Signed_Division"
begin

section \<open>Fourier space time-stepping option pricer (option.cu)\<close>

text \<open>
  The program prices an option by stepping the transformed pricing equation in
  frequency space.  This theory embeds the kernels and the host code of
  \<^verbatim>\<open>option.cu\<close> as HOL functions and proves properties of them.

  Conventions of the embedding.
  \<^item> The build modelled is the default one (\<^verbatim>\<open>USE_FLOAT\<close> undefined): the scalar type
    is \<^verbatim>\<open>double\<close> and \<^verbatim>\<open>MAX_BLOCK_SIZE\<close> is 1024.
  \<^item> A \<^verbatim>\<open>double\<close> is a \<^typ>\<open>real\<close>: arithmetic is exact, there is no rounding, no
    infinity and no NaN.  Every theorem below is a statement about the program
    in exact arithmetic.  Real division by zero is \<open>0\<close> in HOL, whereas the program
    would produce an infinity or a NaN; a theorem that uses the value of a
    quotient carries the hypothesis that makes its divisor different from zero.
  \<^item> A \<^verbatim>\<open>cufftDoubleComplex\<close> is a \<^typ>\<open>complex\<close>; \<^verbatim>\<open>makeComplex\<close> is \<^const>\<open>Complex\<close>,
    \<^verbatim>\<open>cuCreal\<close> is \<^const>\<open>Re\<close> and \<^verbatim>\<open>cuCimag\<close> is \<^const>\<open>Im\<close>.
  \<^item> An \<^verbatim>\<open>int\<close> is an \<^typ>\<open>int\<close>; C division of integers truncates towards zero and
    is written \<open>sdiv\<close>.  A thread index is a \<^typ>\<open>nat\<close>.
  \<^item> A device buffer is a list.  A kernel thread that reads or writes a cell
    outside its buffer has no defined behaviour in the program; in the model it
    returns \<^const>\<open>None\<close>, and so does an assertion that fails.
\<close>

subsection \<open>Parameters\<close>

datatype OptionPayoffType = Call | Put

datatype OptionExerciseType = European | American

datatype JumpType = None_jump | Merton | Kou | CGMY

text \<open>
  The fields of \<^verbatim>\<open>Parameters\<close> that \<^verbatim>\<open>option.cu\<close> reads.  The class itself is declared
  in \<^verbatim>\<open>parameters.h\<close>.
\<close>

record Parameters =
  startPrice :: real
  strikePrice :: real
  riskFreeRate :: real
  dividendRate :: real
  volatility :: real
  expiryTime :: real
  resolution :: int
  timesteps :: int
  optionExerciseType :: OptionExerciseType
  optionPayoffType :: OptionPayoffType
  jumpType :: JumpType
  jumpMean :: real
  driftRate :: real
  mertonNormalStdev :: real
  kouUpJumpProbability :: real
  kouUpRate :: real
  kouDownRate :: real
  CGMY_C :: real
  CGMY_G :: real
  CGMY_M :: real
  CGMY_Y :: real

text \<open>
  What \<^verbatim>\<open>option.cu\<close> takes as given is collected in an environment:
  \<^item> the member functions \<^verbatim>\<open>x_min()\<close>, \<^verbatim>\<open>x_max()\<close> and \<^verbatim>\<open>kappa()\<close> of \<^verbatim>\<open>Parameters\<close>, which
    are defined outside \<^verbatim>\<open>option.cu\<close>;
  \<^item> the C library functions \<^verbatim>\<open>tgamma\<close>, \<^verbatim>\<open>pow\<close>, \<^verbatim>\<open>atan2\<close> and \<^verbatim>\<open>log\<close> (the field \<open>log_e\<close>), used by the CGMY
    provider only, whose values at the edges of their domains are infinities or
    NaN (\<^verbatim>\<open>exp\<close>, \<^verbatim>\<open>cos\<close> and \<^verbatim>\<open>sin\<close> are the total functions of HOL);
  \<^item> the contents of freshly allocated device memory, which \<^verbatim>\<open>cudaMalloc\<close> does not
    initialise: \<open>uninitialized env b i\<close> is cell \<open>i\<close> of the \<open>b\<close>-th buffer.
\<close>

record Env =
  x_min :: "Parameters \<Rightarrow> real"
  x_max :: "Parameters \<Rightarrow> real"
  kappa :: "Parameters \<Rightarrow> real"
  tgamma :: "real \<Rightarrow> real"
  pow :: "real \<Rightarrow> real \<Rightarrow> real"
  atan2 :: "real \<Rightarrow> real \<Rightarrow> real"
  log_e :: "real \<Rightarrow> real"
  uninitialized :: "nat \<Rightarrow> nat \<Rightarrow> complex"

definition MAX_BLOCK_SIZE :: int where
  "MAX_BLOCK_SIZE = 1024"

subsection \<open>Complex arithmetic\<close>

text \<open>The operations of \<^verbatim>\<open>cuComplex.h\<close> that the kernels call, component by component.\<close>

definition cuCadd :: "complex \<Rightarrow> complex \<Rightarrow> complex" where
  "cuCadd x y = Complex (Re x + Re y) (Im x + Im y)"

definition cuCmul :: "complex \<Rightarrow> complex \<Rightarrow> complex" where
  "cuCmul x y = Complex (Re x * Re y - Im x * Im y) (Re x * Im y + Im x * Re y)"

definition cuConj :: "complex \<Rightarrow> complex" where
  "cuConj x = Complex (Re x) (- Im x)"

definition cuCabs :: "complex \<Rightarrow> real" where
  "cuCabs x = sqrt (Re x * Re x + Im x * Im x)"

definition cuCdiv :: "complex \<Rightarrow> complex \<Rightarrow> complex" where
  "cuCdiv x y =
     (let s = \<bar>Re y\<bar> + \<bar>Im y\<bar>;
          oos = 1 / s;
          ars = Re x * oos;
          ais = Im x * oos;
          brs = Re y * oos;
          bis = Im y * oos;
          s = brs * brs + bis * bis;
          oos = 1 / s
      in Complex ((ars * brs + ais * bis) * oos) ((ais * brs - ars * bis) * oos))"

definition cuComplexExponential :: "complex \<Rightarrow> complex" where
  "cuComplexExponential x =
     (let a = Re x; b = Im x; ea = exp a
      in Complex (ea * cos b) (ea * sin b))"

definition cuComplexPower :: "Env \<Rightarrow> complex \<Rightarrow> complex \<Rightarrow> complex" where
  "cuComplexPower env base exponent =
     (let a = Re base; b = Im base;
          c = Re exponent; d = Im exponent;
          r = cuCabs base;
          theta = atan2 env b a;
          scalar = pow env r c * exp (- theta * d);
          angle = d * log_e env r + c * theta
      in Complex (scalar * cos angle) (scalar * sin angle))"

definition cuComplexScalarMult :: "real \<Rightarrow> complex \<Rightarrow> complex" where
  "cuComplexScalarMult scalar x =
     (let a = Re x; b = Im x
      in Complex (scalar * a) (scalar * b))"

subsection \<open>Kernel launches\<close>

text \<open>
  A launch \<^verbatim>\<open>kernel<<<gridDim, blockDim>>>(...)\<close> runs one thread for every block
  index below \<open>gridDim\<close> and thread index below \<open>blockDim\<close>; the thread computes
  \<^verbatim>\<open>idx = blockIdx.x * blockDim.x + threadIdx.x\<close>.  Every kernel of the program
  touches only the cells at its own \<open>idx\<close>, so the threads are run one after the
  other.
\<close>

definition thread_indices :: "int \<Rightarrow> int \<Rightarrow> nat list" where
  "thread_indices gridDim blockDim =
     concat (map (\<lambda>blockIdx. map (\<lambda>threadIdx. blockIdx * nat blockDim + threadIdx)
                                 [0..<nat blockDim])
                 [0..<nat gridDim])"

definition launch :: "int \<Rightarrow> int \<Rightarrow> (nat \<Rightarrow> 'm \<Rightarrow> 'm option) \<Rightarrow> 'm \<Rightarrow> 'm option" where
  "launch gridDim blockDim thread mem =
     fold (\<lambda>idx r. Option.bind r (thread idx)) (thread_indices gridDim blockDim) (Some mem)"

text \<open>\<^verbatim>\<open>buf[idx] = v\<close> and \<^verbatim>\<open>buf[idx]\<close>, with the bounds written out.\<close>

definition store :: "nat \<Rightarrow> 'a \<Rightarrow> 'a list \<Rightarrow> 'a list option" where
  "store idx v buf = (if idx < length buf then Some (buf[idx := v]) else None)"

definition load :: "'a list \<Rightarrow> nat \<Rightarrow> 'a option" where
  "load buf idx = (if idx < length buf then Some (buf ! idx) else None)"

subsection \<open>Kernels on the price field\<close>

definition normalize :: "int \<Rightarrow> nat \<Rightarrow> real list \<Rightarrow> real list option" where
  "normalize len idx ft =
     Option.bind (load ft idx) (\<lambda>v. store idx (v / real_of_int len) ft)"

definition earlyExercise ::
  "real \<Rightarrow> real \<Rightarrow> real \<Rightarrow> real \<Rightarrow> OptionPayoffType \<Rightarrow> nat \<Rightarrow> real list \<Rightarrow> real list option" where
  "earlyExercise startPrice' strikePrice' x_min' delta_x type idx ft =
     (let assetPrice = startPrice' * exp (x_min' + real idx * delta_x)
      in if type = Call
         then Option.bind (load ft idx)
                (\<lambda>v. store idx (max v (max (assetPrice - strikePrice') 0)) ft)
         else Option.bind (load ft idx)
                (\<lambda>v. store idx (max v (max (strikePrice' - assetPrice) 0)) ft))"

subsection \<open>Characteristic exponent providers\<close>

text \<open>
  Each provider starts with the same block, which turns the thread index into
  the frequency number \<^verbatim>\<open>m\<close>:
  \<^verbatim>\<open>if (idx <= N / 2) { m = idx; } else { m = idx - N; }\<close>
  The rest of each kernel is a function of \<^verbatim>\<open>m\<close>, given here under the name of the
  kernel followed by \<open>_at\<close>; the kernel is the block followed by that function.
\<close>

definition frequency_number :: "int \<Rightarrow> nat \<Rightarrow> real" where
  "frequency_number N idx =
     (if int idx \<le> N sdiv 2 then real idx else real_of_int (int idx - N))"

definition prepareMertonJumpFT_at :: "real \<Rightarrow> real \<Rightarrow> real \<Rightarrow> real \<Rightarrow> complex" where
  "prepareMertonJumpFT_at delta_frequency mertonNormalStdev' driftRate' m =
     (let k = delta_frequency * m;
          real' = pi * k * mertonNormalStdev';
          real' = - 2 * real' * real';
          imag = - 2 * pi * k * driftRate';
          exponent = Complex real' imag
      in cuComplexExponential exponent)"

definition prepareMertonJumpFT ::
  "real \<Rightarrow> int \<Rightarrow> real \<Rightarrow> real \<Rightarrow> nat \<Rightarrow> complex list \<Rightarrow> complex list option" where
  "prepareMertonJumpFT delta_frequency N mertonNormalStdev' driftRate' idx jump_ft =
     (let m = frequency_number N idx
      in store idx (prepareMertonJumpFT_at delta_frequency mertonNormalStdev' driftRate' m)
           jump_ft)"

definition prepareKouJumpFT_at :: "real \<Rightarrow> real \<Rightarrow> real \<Rightarrow> real \<Rightarrow> real \<Rightarrow> complex" where
  "prepareKouJumpFT_at delta_frequency kouUpJumpProbability' kouUpRate' kouDownRate' m =
     (let p = kouUpJumpProbability';
          k = delta_frequency * m;
          up = cuCdiv (Complex p 0) (Complex 1 (2 * pi * k / kouUpRate'));
          down = cuCdiv (Complex (1 - p) 0) (Complex 1 (- 2 * pi * k / kouDownRate'))
      in cuCadd up down)"

definition prepareKouJumpFT ::
  "real \<Rightarrow> int \<Rightarrow> real \<Rightarrow> real \<Rightarrow> real \<Rightarrow> nat \<Rightarrow> complex list \<Rightarrow> complex list option" where
  "prepareKouJumpFT delta_frequency N kouUpJumpProbability' kouUpRate' kouDownRate' idx jump_ft =
     (let m = frequency_number N idx
      in store idx
           (prepareKouJumpFT_at delta_frequency kouUpJumpProbability' kouUpRate' kouDownRate' m)
           jump_ft)"

text \<open>
  \<^verbatim>\<open>jump_ft\<close> is a null pointer when no jump model is selected: \<^const>\<open>None\<close> here.  The
  result of \<open>prepareJumpModelCharacteristic_at\<close> is \<^const>\<open>None\<close> when the read of
  \<^verbatim>\<open>jump_ft[idx]\<close> is out of bounds.
\<close>

definition prepareJumpModelCharacteristic_at ::
  "complex list option \<Rightarrow> real \<Rightarrow> real \<Rightarrow> real \<Rightarrow> real \<Rightarrow> real \<Rightarrow> real \<Rightarrow> nat \<Rightarrow> real
     \<Rightarrow> complex option" where
  "prepareJumpModelCharacteristic_at jump_ft riskFreeRate' dividend volatility' jumpMean' kappa'
       delta_frequency idx m =
     (let k = delta_frequency * m;
          fst_term = volatility' * pi * k;
          psi = Complex
                  ((- 2 * fst_term * fst_term) - (riskFreeRate' + jumpMean'))
                  ((riskFreeRate' - dividend - jumpMean' * kappa' - volatility' * volatility' / 2) *
                     (2 * pi * k))
      in case jump_ft of
           None \<Rightarrow> Some psi
         | Some jump_ft' \<Rightarrow>
             Option.bind (load jump_ft' idx)
               (\<lambda>j. Some (cuCadd psi (cuComplexScalarMult jumpMean' (cuConj j)))))"

definition prepareJumpModelCharacteristic ::
  "complex list option \<Rightarrow> real \<Rightarrow> real \<Rightarrow> real \<Rightarrow> real \<Rightarrow> real \<Rightarrow> real \<Rightarrow> int \<Rightarrow> nat
     \<Rightarrow> complex list \<Rightarrow> complex list option" where
  "prepareJumpModelCharacteristic jump_ft riskFreeRate' dividend volatility' jumpMean' kappa'
       delta_frequency N idx characteristic =
     (let m = frequency_number N idx
      in Option.bind
           (prepareJumpModelCharacteristic_at jump_ft riskFreeRate' dividend volatility' jumpMean'
              kappa' delta_frequency idx m)
           (\<lambda>psi. store idx psi characteristic))"

definition prepareCGMYCharacteristic_at ::
  "Env \<Rightarrow> real \<Rightarrow> real \<Rightarrow> real \<Rightarrow> real \<Rightarrow> real \<Rightarrow> real \<Rightarrow> real \<Rightarrow> complex" where
  "prepareCGMYCharacteristic_at env delta_frequency C G M Y gamma m =
     (let k = delta_frequency * m;
          w = 2 * pi * k;
          MY = cuComplexPower env (Complex M (- w)) (Complex Y 0);
          MG = cuComplexPower env (Complex G w) (Complex Y 0)
      in cuComplexScalarMult (C * gamma)
           (cuCadd (Complex (- pow env M Y - pow env G Y) 0) (cuCadd MY MG)))"

definition prepareCGMYCharacteristic ::
  "Env \<Rightarrow> int \<Rightarrow> real \<Rightarrow> real \<Rightarrow> real \<Rightarrow> real \<Rightarrow> real \<Rightarrow> real \<Rightarrow> nat
     \<Rightarrow> complex list \<Rightarrow> complex list option" where
  "prepareCGMYCharacteristic env N delta_frequency C G M Y gamma idx characteristic =
     (let m = frequency_number N idx
      in store idx (prepareCGMYCharacteristic_at env delta_frequency C G M Y gamma m)
           characteristic)"

subsection \<open>Spectral propagator\<close>

definition solveODE ::
  "complex list \<Rightarrow> real \<Rightarrow> real \<Rightarrow> nat \<Rightarrow> complex list \<Rightarrow> complex list option" where
  "solveODE characteristic from_time to_time idx ft =
     Option.bind (load ft idx) (\<lambda>old_value.
     Option.bind (load characteristic idx) (\<lambda>psi.
       let delta_tau = to_time - from_time;
           exponent = cuComplexScalarMult delta_tau psi;
           exponential = cuComplexExponential exponent;
           new_value = cuCmul old_value exponential
       in store idx new_value ft))"

subsection \<open>Payoff at expiry\<close>

text \<open>
  The grid of asset prices is computed here in exact arithmetic.  In the program
  the sum \<^verbatim>\<open>x_min + i * delta_x\<close>, the exponential and the product are rounded, and
  they overflow and underflow, so two grid prices that differ here can be one
  and the same \<^verbatim>\<open>double\<close> there.  Below, only the sign of the payoff is derived from
  this function, which is the same in both.
\<close>

definition assetPricesAtPayoff :: "Env \<Rightarrow> Parameters \<Rightarrow> real list" where
  "assetPricesAtPayoff env prms =
     (let N = real_of_int (resolution prms);
          x_max' = x_max env prms;
          x_min' = x_min env prms;
          delta_x = (x_max' - x_min') / (N - 1)
      in map (\<lambda>i. startPrice prms * exp (x_min' + real i * delta_x))
             [0..<nat (resolution prms)])"

definition optionValuesAtPayoff :: "Parameters \<Rightarrow> real list \<Rightarrow> real list option" where
  "optionValuesAtPayoff prms assetPrices =
     (if nat (resolution prms) \<le> length assetPrices
      then Some (map (\<lambda>i. if optionPayoffType prms = Call
                          then max (assetPrices ! i - strikePrice prms) 0
                          else max (strikePrice prms - assetPrices ! i) 0)
                     [0..<nat (resolution prms)])
      else None)"

subsection \<open>Transform engine\<close>

text \<open>
  \<^verbatim>\<open>cufftExecD2Z\<close> and \<^verbatim>\<open>cufftExecZ2D\<close> belong to the cuFFT library.  They are modelled
  from its documentation, for a plan of size \<open>N\<close>.  The forward transform of real
  data writes the \<open>N/2 + 1\<close> non-redundant bins
  \<open>X\<^sub>k = \<Sum>\<^sub>n x\<^sub>n exp(-2\<pi>ikn/N)\<close> and leaves the rest of the output buffer as it was.  The
  inverse transform reads those \<open>N/2 + 1\<close> bins as one half of a Hermitian sequence
  (\<open>X\<^bsub>N-k\<^esub>\<close> is the conjugate of \<open>X\<^sub>k\<close>) and writes the \<open>N\<close> real values
  \<open>x\<^sub>n = \<Sum>\<^sub>k X\<^sub>k exp(2\<pi>ikn/N)\<close>, without the factor \<open>1/N\<close>.
\<close>

definition cufftExecD2Z :: "int \<Rightarrow> real list \<Rightarrow> complex list \<Rightarrow> complex list option" where
  "cufftExecD2Z N idata odata =
     (if nat N \<le> length idata \<and> nat N div 2 + 1 \<le> length odata
      then Some (map (\<lambda>k. \<Sum>n\<leftarrow>[0..<nat N].
                            complex_of_real (idata ! n) *
                              cis (- 2 * pi * real k * real n / real_of_int N))
                     [0..<nat N div 2 + 1]
                  @ drop (nat N div 2 + 1) odata)
      else None)"

definition hermitian_bin :: "int \<Rightarrow> complex list \<Rightarrow> nat \<Rightarrow> complex" where
  "hermitian_bin N idata k =
     (if k \<le> nat N div 2 then idata ! k else cnj (idata ! (nat N - k)))"

definition cufftExecZ2D :: "int \<Rightarrow> complex list \<Rightarrow> real list \<Rightarrow> real list option" where
  "cufftExecZ2D N idata odata =
     (if nat N div 2 + 1 \<le> length idata \<and> nat N \<le> length odata
      then Some (map (\<lambda>n. Re (\<Sum>k\<leftarrow>[0..<nat N].
                                hermitian_bin N idata k *
                                  cis (2 * pi * real k * real n / real_of_int N)))
                     [0..<nat N]
                  @ drop (nat N) odata)
      else None)"

subsection \<open>The host code of computeGPU\<close>

text \<open>The discretisation parameters (lines 460 to 463).\<close>

record Grid =
  grid_x_min :: real
  grid_x_max :: real
  delta_x :: real
  delta_frequency :: real

definition grid :: "Env \<Rightarrow> Parameters \<Rightarrow> Grid" where
  "grid env params =
     (let N = resolution params;
          x_min' = x_min env params;
          x_max' = x_max env params
      in \<lparr> grid_x_min = x_min',
           grid_x_max = x_max',
           delta_x = (x_max' - x_min') / real_of_int (N - 1),
           delta_frequency = real_of_int (N - 1) / (x_max' - x_min') / real_of_int N \<rparr>)"

text \<open>A buffer of \<open>N\<close> cells from \<^verbatim>\<open>cudaMalloc\<close>.\<close>

definition cudaMalloc :: "Env \<Rightarrow> nat \<Rightarrow> int \<Rightarrow> complex list" where
  "cudaMalloc env b N = map (uninitialized env b) [0..<nat N]"

text \<open>
  The characteristic \<open>\<Psi>\<close> and the jump function (lines 465 to 497).  Buffer 1 is
  \<^verbatim>\<open>d_characteristic\<close> and buffer 2 is \<^verbatim>\<open>d_jump_ft\<close>.
\<close>

definition prepare_characteristic :: "Env \<Rightarrow> Parameters \<Rightarrow> complex list option" where
  "prepare_characteristic env params =
     (let N = resolution params;
          delta_frequency' = delta_frequency (grid env params);
          d_characteristic = cudaMalloc env 1 N
      in if jumpType params = CGMY
         then launch (max (N sdiv MAX_BLOCK_SIZE) 1) (min N MAX_BLOCK_SIZE)
                (prepareCGMYCharacteristic env N delta_frequency'
                   (CGMY_C params) (CGMY_G params) (CGMY_M params) (CGMY_Y params)
                   (tgamma env (- CGMY_Y params)))
                d_characteristic
         else
           Option.bind
             (if jumpType params \<noteq> None_jump
              then (if jumpType params = Merton
                    then map_option Some
                           (launch (max (N sdiv MAX_BLOCK_SIZE) 1) (min N MAX_BLOCK_SIZE)
                              (prepareMertonJumpFT delta_frequency' N
                                 (mertonNormalStdev params) (driftRate params))
                              (cudaMalloc env 2 N))
                    else if jumpType params = Kou
                    then map_option Some
                           (launch (max (N sdiv MAX_BLOCK_SIZE) 1) (min N MAX_BLOCK_SIZE)
                              (prepareKouJumpFT delta_frequency' N
                                 (kouUpJumpProbability params) (kouUpRate params)
                                 (kouDownRate params))
                              (cudaMalloc env 2 N))
                    else Some (Some (cudaMalloc env 2 N)))
              else Some None)
             (\<lambda>d_jump_ft.
                launch (max (N sdiv MAX_BLOCK_SIZE) 1) (min N MAX_BLOCK_SIZE)
                  (prepareJumpModelCharacteristic d_jump_ft
                     (riskFreeRate params) (dividendRate params)
                     (volatility params) (jumpMean params) (kappa env params)
                     delta_frequency' N)
                  d_characteristic))"

text \<open>The launch of the spectral propagator (lines 514 to 518).\<close>

definition propagate :: "int \<Rightarrow> complex list \<Rightarrow> real \<Rightarrow> real \<Rightarrow> complex list \<Rightarrow> complex list option" where
  "propagate N d_characteristic from_time to_time d_ft =
     (let fourier_size = N sdiv 2 + 1;
          fourier_block_count = \<lceil>real_of_int fourier_size / real_of_int MAX_BLOCK_SIZE\<rceil>;
          fourier_block_size = min fourier_size MAX_BLOCK_SIZE
      in launch fourier_block_count fourier_block_size
           (solveODE d_characteristic from_time to_time) d_ft)"

text \<open>The early exercise of American options (lines 527 to 531).\<close>

definition exercise :: "Env \<Rightarrow> Parameters \<Rightarrow> real list \<Rightarrow> real list option" where
  "exercise env params d_prices =
     (let N = resolution params;
          g = grid env params
      in if optionExerciseType params = American
         then launch (max (N sdiv MAX_BLOCK_SIZE) 1) (min N MAX_BLOCK_SIZE)
                (earlyExercise (startPrice params) (strikePrice params)
                   (grid_x_min g) (delta_x g) (optionPayoffType params))
                d_prices
         else Some d_prices)"

text \<open>
  One pass of the loop over the timesteps (lines 500 to 531), on the pair of
  \<^verbatim>\<open>d_prices\<close> and \<^verbatim>\<open>d_ft\<close>.
\<close>

definition timestep ::
  "Env \<Rightarrow> Parameters \<Rightarrow> complex list \<Rightarrow> nat \<Rightarrow> real list \<times> complex list
     \<Rightarrow> (real list \<times> complex list) option" where
  "timestep env params d_characteristic i mem =
     (let N = resolution params;
          d_prices = fst mem;
          d_ft = snd mem;
          from_time = real i / real_of_int (timesteps params) * expiryTime params;
          to_time = real (i + 1) / real_of_int (timesteps params) * expiryTime params
      in Option.bind (cufftExecD2Z N d_prices d_ft) (\<lambda>d_ft.
         Option.bind (propagate N d_characteristic from_time to_time d_ft) (\<lambda>d_ft.
         Option.bind (cufftExecZ2D N d_ft d_prices) (\<lambda>d_prices.
         Option.bind (launch (max (N sdiv MAX_BLOCK_SIZE) 1) (min N MAX_BLOCK_SIZE)
                        (normalize N) d_prices) (\<lambda>d_prices.
         Option.bind (exercise env params d_prices) (\<lambda>d_prices.
           Some (d_prices, d_ft)))))))"

text \<open>
  The extraction of the price (lines 544 to 551).  \<open>int_cast\<close> is the conversion
  \<^verbatim>\<open>(int)\<close> of a \<^verbatim>\<open>double\<close>, which drops the fractional part.  With \<open>x_max = x_min\<close> the
  quotient is an infinity or a NaN in the program, which no \<^verbatim>\<open>int\<close> equals: the
  assertion fails.  The read of \<^verbatim>\<open>initialValues\<close> is not checked by the program; a
  read outside the vector is \<^const>\<open>None\<close> here.
\<close>

definition int_cast :: "real \<Rightarrow> int" where
  "int_cast x = (if 0 \<le> x then \<lfloor>x\<rfloor> else \<lceil>x\<rceil>)"

definition answer_index :: "Env \<Rightarrow> Parameters \<Rightarrow> real" where
  "answer_index env params =
     - x_min env params * real_of_int (resolution params - 1) /
       (x_max env params - x_min env params)"

definition extract_price :: "Env \<Rightarrow> Parameters \<Rightarrow> real list \<Rightarrow> real option" where
  "extract_price env params initialValues =
     (if x_max env params = x_min env params then None
      else if answer_index env params \<noteq> real_of_int (int_cast (answer_index env params))
      then None
      else if 0 \<le> int_cast (answer_index env params) \<and>
              nat (int_cast (answer_index env params)) < length initialValues
      then Some (initialValues ! nat (int_cast (answer_index env params)))
      else None)"

text \<open>
  \<^verbatim>\<open>computeGPU\<close>.  The allocations and the creation of the plans fail, and the
  run is aborted, when the resolution is not positive.  The first \<open>N\<close> values of
  \<^verbatim>\<open>optionValues\<close> are copied to \<^verbatim>\<open>d_prices\<close>, so the vector must hold that many;
  \<^verbatim>\<open>initialValues\<close> is a vector of zeros of the size of \<^verbatim>\<open>optionValues\<close> whose first \<open>N\<close>
  values are copied back from \<^verbatim>\<open>d_prices\<close> after the last timestep.  Buffer 0 is
  \<^verbatim>\<open>d_ft\<close>.  The result is the price that is printed.
\<close>

definition computeGPU :: "Env \<Rightarrow> Parameters \<Rightarrow> real list \<Rightarrow> real option" where
  "computeGPU env params optionValues =
     (let N = resolution params
      in if N \<le> 0 then None
         else if length optionValues < nat N then None
         else
           Option.bind (prepare_characteristic env params) (\<lambda>d_characteristic.
           Option.bind
             (fold (\<lambda>i mem. Option.bind mem (timestep env params d_characteristic i))
                [0..<nat (timesteps params)]
                (Some (take (nat N) optionValues, cudaMalloc env 0 N))) (\<lambda>mem.
             let initialValues = fst mem @ replicate (length optionValues - nat N) 0
             in extract_price env params initialValues)))"

text \<open>The computation of \<^verbatim>\<open>main\<close> once the arguments are parsed (lines 706 to 712).\<close>

definition price :: "Env \<Rightarrow> Parameters \<Rightarrow> real option" where
  "price env params =
     Option.bind (optionValuesAtPayoff params (assetPricesAtPayoff env params))
       (computeGPU env params)"

subsection \<open>Notions used to state the properties\<close>

text \<open>
  The intrinsic value at grid point \<open>idx\<close>: the payoff of immediate exercise at the
  asset price \<open>S = startPrice \<cdot> exp (x_min + idx \<cdot> delta_x)\<close>.
\<close>

definition intrinsic :: "real \<Rightarrow> real \<Rightarrow> real \<Rightarrow> real \<Rightarrow> OptionPayoffType \<Rightarrow> nat \<Rightarrow> real" where
  "intrinsic S K x0 dx ty idx =
     (if ty = Call then max (S * exp (x0 + real idx * dx) - K) 0
      else max (K - S * exp (x0 + real idx * dx)) 0)"

text \<open>The number of threads in the launch of \<^verbatim>\<open>solveODE\<close>, for a resolution \<open>N\<close>.\<close>

definition fourier_threads :: "int \<Rightarrow> nat" where
  "fourier_threads N =
     nat \<lceil>real_of_int (N sdiv 2 + 1) / real_of_int MAX_BLOCK_SIZE\<rceil> *
       nat (min (N sdiv 2 + 1) MAX_BLOCK_SIZE)"

text \<open>
  The characteristic exponent of the model without jumps, as the specification
  states it: \<open>\<Psi>(k) = -2(\<sigma>\<pi>k)\<^sup>2 - r + i (r - q - \<sigma>\<^sup>2/2) (2\<pi>k)\<close>.
\<close>

definition no_jump_psi :: "real \<Rightarrow> real \<Rightarrow> real \<Rightarrow> real \<Rightarrow> complex" where
  "no_jump_psi sigma r q k =
     Complex (- 2 * (sigma * pi * k)\<^sup>2 - r) ((r - q - sigma\<^sup>2 / 2) * (2 * pi * k))"

text \<open>
  The providers with the branch \<^verbatim>\<open>m = idx - N\<close> removed, so that \<^verbatim>\<open>m = idx\<close> for every
  thread, and the preparation of the characteristic with these kernels in the
  place of the original ones.  They are not part of the program: they are what
  the program is compared with.
\<close>

definition prepareMertonJumpFT_unfolded ::
  "real \<Rightarrow> real \<Rightarrow> real \<Rightarrow> nat \<Rightarrow> complex list \<Rightarrow> complex list option" where
  "prepareMertonJumpFT_unfolded delta_frequency' mertonNormalStdev' driftRate' idx jump_ft =
     store idx (prepareMertonJumpFT_at delta_frequency' mertonNormalStdev' driftRate' (real idx))
       jump_ft"

definition prepareKouJumpFT_unfolded ::
  "real \<Rightarrow> real \<Rightarrow> real \<Rightarrow> real \<Rightarrow> nat \<Rightarrow> complex list \<Rightarrow> complex list option" where
  "prepareKouJumpFT_unfolded delta_frequency' kouUpJumpProbability' kouUpRate' kouDownRate' idx
       jump_ft =
     store idx
       (prepareKouJumpFT_at delta_frequency' kouUpJumpProbability' kouUpRate' kouDownRate'
          (real idx))
       jump_ft"

definition prepareJumpModelCharacteristic_unfolded ::
  "complex list option \<Rightarrow> real \<Rightarrow> real \<Rightarrow> real \<Rightarrow> real \<Rightarrow> real \<Rightarrow> real \<Rightarrow> nat
     \<Rightarrow> complex list \<Rightarrow> complex list option" where
  "prepareJumpModelCharacteristic_unfolded jump_ft riskFreeRate' dividend volatility' jumpMean'
       kappa' delta_frequency' idx characteristic =
     Option.bind
       (prepareJumpModelCharacteristic_at jump_ft riskFreeRate' dividend volatility' jumpMean'
          kappa' delta_frequency' idx (real idx))
       (\<lambda>psi. store idx psi characteristic)"

definition prepareCGMYCharacteristic_unfolded ::
  "Env \<Rightarrow> real \<Rightarrow> real \<Rightarrow> real \<Rightarrow> real \<Rightarrow> real \<Rightarrow> real \<Rightarrow> nat
     \<Rightarrow> complex list \<Rightarrow> complex list option" where
  "prepareCGMYCharacteristic_unfolded env delta_frequency' C G M Y gamma idx characteristic =
     store idx (prepareCGMYCharacteristic_at env delta_frequency' C G M Y gamma (real idx))
       characteristic"

definition prepare_characteristic_unfolded :: "Env \<Rightarrow> Parameters \<Rightarrow> complex list option" where
  "prepare_characteristic_unfolded env params =
     (let N = resolution params;
          delta_frequency' = delta_frequency (grid env params);
          d_characteristic = cudaMalloc env 1 N
      in if jumpType params = CGMY
         then launch (max (N sdiv MAX_BLOCK_SIZE) 1) (min N MAX_BLOCK_SIZE)
                (prepareCGMYCharacteristic_unfolded env delta_frequency'
                   (CGMY_C params) (CGMY_G params) (CGMY_M params) (CGMY_Y params)
                   (tgamma env (- CGMY_Y params)))
                d_characteristic
         else
           Option.bind
             (if jumpType params \<noteq> None_jump
              then (if jumpType params = Merton
                    then map_option Some
                           (launch (max (N sdiv MAX_BLOCK_SIZE) 1) (min N MAX_BLOCK_SIZE)
                              (prepareMertonJumpFT_unfolded delta_frequency'
                                 (mertonNormalStdev params) (driftRate params))
                              (cudaMalloc env 2 N))
                    else if jumpType params = Kou
                    then map_option Some
                           (launch (max (N sdiv MAX_BLOCK_SIZE) 1) (min N MAX_BLOCK_SIZE)
                              (prepareKouJumpFT_unfolded delta_frequency'
                                 (kouUpJumpProbability params) (kouUpRate params)
                                 (kouDownRate params))
                              (cudaMalloc env 2 N))
                    else Some (Some (cudaMalloc env 2 N)))
              else Some None)
             (\<lambda>d_jump_ft.
                launch (max (N sdiv MAX_BLOCK_SIZE) 1) (min N MAX_BLOCK_SIZE)
                  (prepareJumpModelCharacteristic_unfolded d_jump_ft
                     (riskFreeRate params) (dividendRate params)
                     (volatility params) (jumpMean params) (kappa env params)
                     delta_frequency')
                  d_characteristic))"

text \<open>
  The value that \<^verbatim>\<open>prepareJumpModelCharacteristic\<close> writes at \<open>idx\<close> for the frequency
  number \<open>m\<close>, in the complex field: the diffusion part, plus the intensity times
  the conjugate of the jump transform when there is one.
\<close>

definition jump_model_psi ::
  "complex list option \<Rightarrow> real \<Rightarrow> real \<Rightarrow> real \<Rightarrow> real \<Rightarrow> real \<Rightarrow> real \<Rightarrow> nat \<Rightarrow> real
     \<Rightarrow> complex" where
  "jump_model_psi jump_ft r q sigma lam kap df idx m =
     Complex (- 2 * (sigma * pi * (df * m))\<^sup>2 - (r + lam))
             ((r - q - lam * kap - sigma\<^sup>2 / 2) * (2 * pi * (df * m))) +
     (case jump_ft of None \<Rightarrow> 0 | Some j \<Rightarrow> complex_of_real lam * cnj (j ! idx))"

text \<open>
  The jump transform and the characteristic field as lists, for a given map \<open>fm\<close>
  from thread index to frequency number.
\<close>

definition jump_field :: "Env \<Rightarrow> Parameters \<Rightarrow> (nat \<Rightarrow> real) \<Rightarrow> complex list option" where
  "jump_field env params fm =
     (if jumpType params = None_jump then None
      else if jumpType params = Merton
      then Some (map (\<lambda>i. prepareMertonJumpFT_at (delta_frequency (grid env params))
                            (mertonNormalStdev params) (driftRate params) (fm i))
                   [0..<nat (resolution params)])
      else if jumpType params = Kou
      then Some (map (\<lambda>i. prepareKouJumpFT_at (delta_frequency (grid env params))
                            (kouUpJumpProbability params) (kouUpRate params)
                            (kouDownRate params) (fm i))
                   [0..<nat (resolution params)])
      else Some (cudaMalloc env 2 (resolution params)))"

definition characteristic_field :: "Env \<Rightarrow> Parameters \<Rightarrow> (nat \<Rightarrow> real) \<Rightarrow> complex list" where
  "characteristic_field env params fm =
     (if jumpType params = CGMY
      then map (\<lambda>i. prepareCGMYCharacteristic_at env (delta_frequency (grid env params))
                      (CGMY_C params) (CGMY_G params) (CGMY_M params) (CGMY_Y params)
                      (tgamma env (- CGMY_Y params)) (fm i))
             [0..<nat (resolution params)]
      else map (\<lambda>i. jump_model_psi (jump_field env params fm)
                      (riskFreeRate params) (dividendRate params) (volatility params)
                      (jumpMean params) (kappa env params) (delta_frequency (grid env params))
                      i (fm i))
             [0..<nat (resolution params)])"

subsection \<open>Concrete inputs\<close>

text \<open>
  A small run, used where a statement is evaluated: a European call without
  jumps on a grid of two points, \<open>x_min = 0\<close> and \<open>x_max = 1\<close>, start price 1, strike 0,
  no interest, no dividend, no volatility, one timestep up to the expiry time 1.
\<close>

definition example_env :: Env where
  "example_env =
     \<lparr> x_min = (\<lambda>_. 0), x_max = (\<lambda>_. 1), kappa = (\<lambda>_. 0), tgamma = (\<lambda>_. 0),
       pow = (\<lambda>_ _. 0), atan2 = (\<lambda>_ _. 0), log_e = (\<lambda>_. 0), uninitialized = (\<lambda>_ _. 0) \<rparr>"

definition example_params :: Parameters where
  "example_params =
     \<lparr> startPrice = 1, strikePrice = 0, riskFreeRate = 0, dividendRate = 0, volatility = 0,
       expiryTime = 1, resolution = 2, timesteps = 1,
       optionExerciseType = European, optionPayoffType = Call, jumpType = None_jump,
       jumpMean = 0, driftRate = 0, mertonNormalStdev = 0,
       kouUpJumpProbability = 0, kouUpRate = 0, kouDownRate = 0,
       CGMY_C = 0, CGMY_G = 0, CGMY_M = 0, CGMY_Y = 0 \<rparr>"

section \<open>Properties\<close>

subsection \<open>Launches\<close>

lemma thread_indices_upt: "thread_indices g b = [0..<nat g * nat b]"
proof -
  have blk: "map (\<lambda>t. n * k + t) [0..<k] = [n * k..<n * k + k]" for n k :: nat
    using map_add_upt [of "n * k" k] by (simp add: add.commute)
  have "concat (map (\<lambda>n. map (\<lambda>t. n * k + t) [0..<k]) [0..<m]) = [0..<m * k]" for m k :: nat
  proof (induction m)
    case 0
    show ?case by simp
  next
    case (Suc m)
    have "[0..<m * k] @ [m * k..<m * k + k] = [0..<m * k + k]"
      by (metis upt_add_eq_append zero_le)
    with Suc show ?case by (simp add: blk) (simp add: add.commute)
  qed
  then show ?thesis by (simp add: thread_indices_def)
qed

text \<open>
  A kernel whose thread \<open>idx\<close> rewrites cell \<open>idx\<close> of its buffer from the old value
  of that cell, and faults when the cell or one of its operands is absent: the
  launch rewrites the cells below the number of threads, or faults.
\<close>

lemma fold_cellwise:
  assumes K: "\<And>idx buf. K idx buf =
      (if idx < length buf \<and> ok idx then Some (buf[idx := f idx (buf ! idx)]) else None)"
  shows "fold (\<lambda>idx r. Option.bind r (K idx)) [0..<n] (Some buf) =
      (if n \<le> length buf \<and> (\<forall>i<n. ok i)
       then Some (map (\<lambda>i. if i < n then f i (buf ! i) else buf ! i) [0..<length buf])
       else None)"
proof (induction n)
  case 0
  show ?case by (simp add: map_nth)
next
  case (Suc n)
  show ?case
  proof (cases "n \<le> length buf \<and> (\<forall>i<n. ok i)")
    case False
    then show ?thesis using Suc by (auto simp: less_Suc_eq)
  next
    case True
    let ?mid = "map (\<lambda>i. if i < n then f i (buf ! i) else buf ! i) [0..<length buf]"
    have step: "fold (\<lambda>idx r. Option.bind r (K idx)) [0..<Suc n] (Some buf) = K n ?mid"
      using Suc True by simp
    show ?thesis
    proof (cases "n < length buf \<and> ok n")
      case False
      then have "K n ?mid = None" by (simp add: K)
      moreover have "\<not> (Suc n \<le> length buf \<and> (\<forall>i<Suc n. ok i))"
        using False by auto
      ultimately show ?thesis unfolding step by simp
    next
      case ok: True
      have upd: "?mid[n := f n (?mid ! n)] =
            map (\<lambda>i. if i < Suc n then f i (buf ! i) else buf ! i) [0..<length buf]"
        using ok by (intro nth_equalityI) (auto simp: nth_list_update less_Suc_eq)
      have "K n ?mid = Some (?mid[n := f n (?mid ! n)])"
        using ok by (simp add: K)
      moreover have "Suc n \<le> length buf \<and> (\<forall>i<Suc n. ok i)"
        using True ok by (auto simp: less_Suc_eq)
      ultimately show ?thesis unfolding step upd by simp
    qed
  qed
qed

lemma launch_cellwise:
  assumes K: "\<And>idx buf. K idx buf =
      (if idx < length buf \<and> ok idx then Some (buf[idx := f idx (buf ! idx)]) else None)"
  shows "launch g b K buf =
      (if nat g * nat b \<le> length buf \<and> (\<forall>i<nat g * nat b. ok i)
       then Some (map (\<lambda>i. if i < nat g * nat b then f i (buf ! i) else buf ! i)
                    [0..<length buf])
       else None)"
  unfolding launch_def thread_indices_upt by (rule fold_cellwise [OF K])

subsection \<open>Launch configurations for a resolution that is a power of two\<close>

lemma sdiv_nonneg: "0 \<le> a \<Longrightarrow> 0 < b \<Longrightarrow> a sdiv b = a div (b::int)"
  by (cases "a = 0") (simp_all add: signed_divide_int_def)

lemma pow2_shape:
  fixes N :: int
  assumes "N = 2 ^ k"
  shows "0 < N \<and> (N \<le> 1024 \<or> 2048 dvd N)"
proof (cases "k \<le> 10")
  case True
  then have "(2::int) ^ k \<le> 2 ^ 10" by (intro power_increasing) simp_all
  then show ?thesis using assms by simp
next
  case False
  then have "11 \<le> k" by simp
  then have "(2::int) ^ 11 dvd 2 ^ k" by (rule le_imp_power_dvd)
  then show ?thesis using assms by simp
qed

lemma full_launch:
  fixes N :: int
  assumes "0 < N" "N \<le> 1024 \<or> 1024 dvd N"
  shows "nat (max (N sdiv MAX_BLOCK_SIZE) 1) * nat (min N MAX_BLOCK_SIZE) = nat N"
proof (cases "N < 1024")
  case True
  then have "N sdiv 1024 = 0" using assms by (simp add: sdiv_nonneg)
  then show ?thesis using True assms by (simp add: MAX_BLOCK_SIZE_def)
next
  case False
  then have "1024 dvd N" using assms by auto
  then obtain j where j: "N = 1024 * j" by (auto simp: dvd_def)
  with assms have "0 < j" by simp
  have "N sdiv 1024 = j" using j \<open>0 < j\<close> by (simp add: sdiv_nonneg)
  moreover have "min N 1024 = 1024" using False by simp
  ultimately show ?thesis using \<open>0 < j\<close> j
    by (simp add: MAX_BLOCK_SIZE_def nat_mult_distrib)
qed

lemma full_launch_pow2:
  fixes N :: int
  assumes "N = 2 ^ k"
  shows "nat (max (N sdiv MAX_BLOCK_SIZE) 1) * nat (min N MAX_BLOCK_SIZE) = nat N"
proof -
  have "0 < N \<and> (N \<le> 1024 \<or> 2048 dvd N)" using assms by (rule pow2_shape)
  moreover have "1024 dvd N" if "2048 dvd N"
  proof -
    have "(1024::int) dvd 2048" by simp
    then show ?thesis using that by (rule dvd_trans)
  qed
  ultimately show ?thesis by (intro full_launch) auto
qed

lemma fourier_threads_small:
  fixes N :: int
  assumes "0 < N" "N \<le> 2046"
  shows "fourier_threads N = nat N div 2 + 1"
proof -
  have d: "N sdiv 2 = N div 2" using assms by (simp add: sdiv_nonneg)
  have "0 < N div 2 + 1" "N div 2 + 1 \<le> 1024" using assms by simp_all
  then have "\<lceil>real_of_int (N div 2 + 1) / 1024\<rceil> = 1"
    by (simp add: ceiling_eq_iff)
  moreover have "nat (N div 2 + 1) = nat N div 2 + 1"
    using assms by (simp add: nat_div_distrib nat_add_distrib)
  ultimately show ?thesis using \<open>N div 2 + 1 \<le> 1024\<close>
    by (simp add: fourier_threads_def d MAX_BLOCK_SIZE_def)
qed

lemma fourier_threads_large:
  fixes N :: int
  assumes "0 < N" "2048 dvd N"
  shows "fourier_threads N = nat N div 2 + 1024"
proof -
  obtain j where j: "N = 2048 * j" using assms by (auto simp: dvd_def)
  with assms have "0 < j" by simp
  have d: "N sdiv 2 = 1024 * j" using assms j by (simp add: sdiv_nonneg)
  have "\<lceil>real_of_int (1024 * j + 1) / 1024\<rceil> = j + 1"
    using \<open>0 < j\<close> by (simp add: ceiling_eq_iff add_divide_distrib)
  moreover have "min (1024 * j + 1) 1024 = (1024::int)" using \<open>0 < j\<close> by simp
  moreover have "nat N div 2 = nat (1024 * j)" using j \<open>0 < j\<close> by (simp add: nat_mult_distrib)
  ultimately show ?thesis using \<open>0 < j\<close>
    by (simp add: fourier_threads_def d MAX_BLOCK_SIZE_def nat_mult_distrib nat_add_distrib
        algebra_simps)
qed

lemma fourier_threads_pow2:
  fixes N :: int
  assumes "N = 2 ^ k"
  shows "nat N div 2 + 1 \<le> fourier_threads N \<and> fourier_threads N \<le> nat N"
proof -
  have s: "0 < N \<and> (N \<le> 1024 \<or> 2048 dvd N)" using assms by (rule pow2_shape)
  show ?thesis
  proof (cases "N \<le> 1024")
    case True
    then show ?thesis using s fourier_threads_small [of N] by simp
  next
    case False
    then have "2048 dvd N" using s by simp
    then obtain j where j: "N = 2048 * j" by (auto simp: dvd_def)
    with s have "0 < j" by simp
    then show ?thesis using s \<open>2048 dvd N\<close> fourier_threads_large [of N] j
      by (simp add: nat_mult_distrib)
  qed
qed

subsection \<open>The complex operations are those of the complex field\<close>

lemma cuCmul_eq: "cuCmul x y = x * y"
  by (simp add: cuCmul_def complex_eq_iff)

lemma cuCadd_eq: "cuCadd x y = x + y"
  by (simp add: cuCadd_def complex_eq_iff)

lemma cuConj_eq: "cuConj x = cnj x"
  by (simp add: cuConj_def complex_eq_iff)

lemma cuComplexScalarMult_eq: "cuComplexScalarMult s x = complex_of_real s * x"
  by (simp add: cuComplexScalarMult_def Let_def complex_eq_iff)

lemma cuComplexExponential_eq: "cuComplexExponential x = exp x"
  by (simp add: cuComplexExponential_def Let_def complex_eq_iff Re_exp Im_exp)

subsection \<open>The spectral propagator\<close>

lemma solveODE_cell:
  "solveODE c from_time to_time idx ft =
     (if idx < length ft \<and> idx < length c
      then Some (ft[idx := ft ! idx * exp (complex_of_real (to_time - from_time) * c ! idx)])
      else None)"
  by (simp add: solveODE_def load_def store_def cuCmul_eq cuComplexExponential_eq
      cuComplexScalarMult_eq)

lemma propagate_eq:
  "propagate N c from_time to_time ft =
     (if fourier_threads N \<le> length ft \<and> (\<forall>i<fourier_threads N. i < length c)
      then Some (map (\<lambda>i. if i < fourier_threads N
                          then ft ! i * exp (complex_of_real (to_time - from_time) * c ! i)
                          else ft ! i)
                   [0..<length ft])
      else None)"
  unfolding propagate_def Let_def fourier_threads_def
  by (rule launch_cellwise [of _ "\<lambda>i. i < length c"
        "\<lambda>i v. v * exp (complex_of_real (to_time - from_time) * c ! i)", OF solveODE_cell])

text \<open>
  C1.  The spectral propagator, launched as in \<^verbatim>\<open>computeGPU\<close> for a resolution
  \<open>N = 2\<^sup>k\<close> on buffers of \<open>N\<close> cells, returns the frequency field in which every bin
  \<open>idx \<le> N/2\<close> holds \<open>old \<cdot> exp ((to_time - from_time) \<cdot> \<Psi> idx)\<close>, the old value of the
  same cell times the complex exponential, where the exponential of \<open>a + bi\<close> is
  computed as \<open>e\<^sup>a (cos b + i sin b)\<close>.  The result takes the place of the old field.
\<close>

theorem solveODE_propagates:
  assumes "N = 2 ^ k" and "length d_ft = nat N" and "length d_characteristic = nat N"
  shows "\<exists>d_ft'. propagate N d_characteristic from_time to_time d_ft = Some d_ft' \<and>
           length d_ft' = length d_ft \<and>
           (\<forall>idx \<le> nat N div 2.
              d_ft' ! idx =
                d_ft ! idx *
                  exp (complex_of_real (to_time - from_time) * d_characteristic ! idx)) \<and>
           cuComplexExponential (Complex a b) = Complex (exp a * cos b) (exp a * sin b) \<and>
           cuComplexExponential (Complex a b) = exp (Complex a b)"
proof -
  have T: "nat N div 2 + 1 \<le> fourier_threads N" "fourier_threads N \<le> nat N"
    using fourier_threads_pow2 [OF assms(1)] by simp_all
  have "cuComplexExponential (Complex a b) = Complex (exp a * cos b) (exp a * sin b)"
    by (simp add: cuComplexExponential_def Let_def)
  then show ?thesis using T assms(2,3)
    by (simp add: propagate_eq cuComplexExponential_eq)
qed

theorem solveODE_propagates_witness:
  "(2::int) = 2 ^ 1 \<and> length [1, 1 :: complex] = nat 2 \<and> length [0, 0 :: complex] = nat 2 \<and>
   (\<exists>d_ft'. propagate 2 [0, 0] 0 1 [1, 1] = Some d_ft' \<and>
           length d_ft' = length [1, 1 :: complex] \<and>
           (\<forall>idx \<le> nat 2 div 2.
              d_ft' ! idx = [1, 1] ! idx * exp (complex_of_real (1 - 0) * [0, 0] ! idx)) \<and>
           cuComplexExponential (Complex 0 0) = Complex (exp 0 * cos 0) (exp 0 * sin 0) \<and>
           cuComplexExponential (Complex 0 0) = exp (Complex 0 0))"
  using solveODE_propagates [of 2 1 "[1, 1]" "[0, 0]" 0 1 0 0] by simp

subsection \<open>The early-exercise projector\<close>

lemma earlyExercise_cell:
  "earlyExercise S K x0 dx ty idx ft =
     (if idx < length ft \<and> True
      then Some (ft[idx := max (ft ! idx) (intrinsic S K x0 dx ty idx)]) else None)"
  by (simp add: earlyExercise_def intrinsic_def load_def store_def Let_def)

lemma launch_earlyExercise:
  "launch g b (earlyExercise S K x0 dx ty) ft =
     (if nat g * nat b \<le> length ft
      then Some (map (\<lambda>i. if i < nat g * nat b
                          then max (ft ! i) (intrinsic S K x0 dx ty i) else ft ! i)
                   [0..<length ft])
      else None)"
  using launch_cellwise [of "earlyExercise S K x0 dx ty" "\<lambda>_. True"
      "\<lambda>idx v. max v (intrinsic S K x0 dx ty idx)" g b ft, OF earlyExercise_cell]
  by simp

lemma intrinsic_nonneg: "0 \<le> intrinsic S K x0 dx ty idx"
  by (simp add: intrinsic_def)

lemma exercise_eq:
  assumes "resolution params = 2 ^ k" and "length d_prices = nat (resolution params)"
  shows "exercise env params d_prices =
     Some (if optionExerciseType params = American
           then map (\<lambda>idx. max (d_prices ! idx)
                      (intrinsic (startPrice params) (strikePrice params) (x_min env params)
                         (delta_x (grid env params)) (optionPayoffType params) idx))
                  [0..<length d_prices]
           else d_prices)"
  using assms full_launch_pow2 [OF assms(1)]
  by (simp add: exercise_def launch_earlyExercise Let_def grid_def)

text \<open>
  C3.  For a resolution \<open>N = 2\<^sup>k\<close> and a price field of \<open>N\<close> values, the early-exercise
  step of \<^verbatim>\<open>computeGPU\<close> leaves the price field as it is unless the option is
  American, and for an American option it replaces the value \<open>v\<close> at every grid
  point \<open>idx\<close> by \<open>max v intrinsic\<close>, with the asset price
  \<open>S = startPrice \<cdot> exp (x_min + idx \<cdot> delta_x)\<close> and the intrinsic value \<open>max (S - K) 0\<close>
  of a call, \<open>max (K - S) 0\<close> of a put.  The value written at \<open>idx\<close> depends on the old
  value at \<open>idx\<close> only, and the field keeps its length.
\<close>

theorem earlyExercise_projects:
  assumes "resolution params = 2 ^ k" and "length d_prices = nat (resolution params)"
  shows "exercise env params d_prices =
     Some (if optionExerciseType params = American
           then map (\<lambda>idx.
                  max (d_prices ! idx)
                    (if optionPayoffType params = Call
                     then max (startPrice params *
                                 exp (x_min env params + real idx * delta_x (grid env params))
                               - strikePrice params) 0
                     else max (strikePrice params -
                               startPrice params *
                                 exp (x_min env params + real idx * delta_x (grid env params)))
                            0))
                  [0..<length d_prices]
           else d_prices)"
  using exercise_eq [OF assms] by (simp add: intrinsic_def)

theorem earlyExercise_projects_witness:
  "resolution (example_params\<lparr>optionExerciseType := American\<rparr>) = 2 ^ 1 \<and>
   length [- 1, 5 :: real] =
     nat (resolution (example_params\<lparr>optionExerciseType := American\<rparr>)) \<and>
   exercise example_env (example_params\<lparr>optionExerciseType := American\<rparr>) [- 1, 5] =
     Some [1, max 5 (exp 1)] \<and>
   exercise example_env example_params [- 1, 5] = Some [- 1, 5]"
  using earlyExercise_projects
      [of "example_params\<lparr>optionExerciseType := American\<rparr>" 1 "[- 1, 5]" example_env]
    earlyExercise_projects [of example_params 1 "[- 1, 5]" example_env]
  by (simp add: example_params_def example_env_def grid_def Let_def)

text \<open>
  C7.  The early-exercise projector is idempotent: for every launch
  configuration, price field, start price, strike, grid offsets and payoff type,
  launching the kernel on its own result gives that result again (and a launch
  that faults faults).
\<close>

theorem earlyExercise_idempotent:
  "Option.bind (launch g b (earlyExercise S K x0 dx ty) ft)
     (launch g b (earlyExercise S K x0 dx ty)) =
   launch g b (earlyExercise S K x0 dx ty) ft"
  by (simp add: launch_earlyExercise)

theorem earlyExercise_idempotent_witness:
  "Option.bind (launch 1 2 (earlyExercise 1 0 0 1 Call) [- 1, 5])
     (launch 1 2 (earlyExercise 1 0 0 1 Call)) =
   launch 1 2 (earlyExercise 1 0 0 1 Call) [- 1, 5]"
  by (rule earlyExercise_idempotent)

subsection \<open>The payoff initializer\<close>

lemma length_assetPricesAtPayoff:
  "length (assetPricesAtPayoff env prms) = nat (resolution prms)"
  by (simp add: assetPricesAtPayoff_def Let_def)

text \<open>
  C9.  The payoff initializer of \<^verbatim>\<open>main\<close> produces a price field of \<open>N\<close> values, none
  of them negative.  For a resolution \<open>N = 2\<^sup>k\<close> and an American option, the
  early-exercise step maps any price field of \<open>N\<close> values, negative ones included,
  to a price field of \<open>N\<close> values none of which is negative.
\<close>

theorem prices_nonnegative:
  assumes "resolution params = 2 ^ k" and "length d_prices = nat (resolution params)"
    and "optionExerciseType params = American"
  shows "(\<exists>vs. optionValuesAtPayoff params (assetPricesAtPayoff env params) = Some vs \<and>
              length vs = nat (resolution params) \<and> (\<forall>v \<in> set vs. 0 \<le> v)) \<and>
         (\<exists>out. exercise env params d_prices = Some out \<and>
              length out = length d_prices \<and> (\<forall>v \<in> set out. 0 \<le> v))"
proof
  show "\<exists>vs. optionValuesAtPayoff params (assetPricesAtPayoff env params) = Some vs \<and>
              length vs = nat (resolution params) \<and> (\<forall>v \<in> set vs. 0 \<le> v)"
    by (auto simp: optionValuesAtPayoff_def length_assetPricesAtPayoff)
  show "\<exists>out. exercise env params d_prices = Some out \<and>
              length out = length d_prices \<and> (\<forall>v \<in> set out. 0 \<le> v)"
    using assms(3) intrinsic_nonneg
    by (auto simp: exercise_eq [OF assms(1,2)] max.coboundedI2)
qed

theorem prices_nonnegative_witness:
  "resolution (example_params\<lparr>optionExerciseType := American\<rparr>) = 2 ^ 1 \<and>
   length [- 1, 5 :: real] =
     nat (resolution (example_params\<lparr>optionExerciseType := American\<rparr>)) \<and>
   optionExerciseType (example_params\<lparr>optionExerciseType := American\<rparr>) = American \<and>
   (\<exists>vs. optionValuesAtPayoff (example_params\<lparr>optionExerciseType := American\<rparr>)
            (assetPricesAtPayoff example_env
               (example_params\<lparr>optionExerciseType := American\<rparr>)) = Some vs \<and>
         length vs = nat (resolution (example_params\<lparr>optionExerciseType := American\<rparr>)) \<and>
         (\<forall>v \<in> set vs. 0 \<le> v)) \<and>
   (\<exists>out. exercise example_env (example_params\<lparr>optionExerciseType := American\<rparr>)
            [- 1, 5] = Some out \<and>
          length out = length [- 1, 5 :: real] \<and> (\<forall>v \<in> set out. 0 \<le> v))"
proof -
  let ?p = "example_params\<lparr>optionExerciseType := American\<rparr>"
  have h: "resolution ?p = 2 ^ 1" "length [- 1, 5 :: real] = nat (resolution ?p)"
    "optionExerciseType ?p = American"
    by (simp_all add: example_params_def)
  show ?thesis
    using h prices_nonnegative [OF h, of example_env] by blast
qed

subsection \<open>The grid\<close>

text \<open>
  C5.  For a resolution \<open>N = 2\<^sup>k \<ge> 2\<close> the grid scalars of \<^verbatim>\<open>computeGPU\<close> are
  \<open>delta_x = (x_max - x_min) / (N - 1)\<close> and
  \<open>delta_frequency = (N - 1) / ((x_max - x_min) \<cdot> N)\<close>, and
  \<open>x_min + (N - 1) \<cdot> delta_x = x_max\<close>.
\<close>

theorem grid_scalars:
  assumes "resolution params = 2 ^ k" and "2 \<le> resolution params"
  shows "delta_x (grid env params) =
           (x_max env params - x_min env params) / (real_of_int (resolution params) - 1) \<and>
         delta_frequency (grid env params) =
           (real_of_int (resolution params) - 1) /
             ((x_max env params - x_min env params) * real_of_int (resolution params)) \<and>
         grid_x_min (grid env params) = x_min env params \<and>
         grid_x_max (grid env params) = x_max env params \<and>
         x_min env params + (real_of_int (resolution params) - 1) * delta_x (grid env params) =
           x_max env params"
  using assms(2) by (simp add: grid_def Let_def)

theorem grid_scalars_witness:
  "resolution example_params = 2 ^ 1 \<and> 2 \<le> resolution example_params \<and>
   delta_x (grid example_env example_params) = 1 \<and>
   delta_frequency (grid example_env example_params) = 1 / 2 \<and>
   x_min example_env example_params +
     (real_of_int (resolution example_params) - 1) * delta_x (grid example_env example_params) =
     x_max example_env example_params"
  using grid_scalars [of example_params 1 example_env]
  by (simp add: example_params_def example_env_def)

subsection \<open>The characteristic exponent providers\<close>

lemma length_cudaMalloc: "length (cudaMalloc env b N) = nat N"
  by (simp add: cudaMalloc_def)

text \<open>
  A kernel whose thread \<open>idx\<close> writes a value \<open>v idx\<close> into cell \<open>idx\<close>, launched
  with as many threads as the buffer has cells, fills the buffer with \<open>v\<close>.
\<close>

lemma launch_fill:
  assumes K: "\<And>idx buf. K idx buf =
      (if idx < length buf \<and> ok idx then Some (buf[idx := v idx]) else None)"
    and n: "nat g * nat b = n" "length buf = n" and ok: "\<And>i. i < n \<Longrightarrow> ok i"
  shows "launch g b K buf = Some (map v [0..<n])"
  using launch_cellwise [of K ok "\<lambda>i _. v i" g b buf, OF K] n ok by simp

lemma frequency_number_low:
  assumes "0 < N" and "idx \<le> nat N div 2"
  shows "frequency_number N idx = real idx"
proof -
  have "N sdiv 2 = N div 2" using assms(1) by (simp add: sdiv_nonneg)
  moreover have "int idx \<le> N div 2" using assms by linarith
  ultimately show ?thesis by (simp add: frequency_number_def)
qed

lemma prepareJumpModelCharacteristic_at_eq:
  "prepareJumpModelCharacteristic_at jump_ft r q sigma lam kap df idx m =
     (if (case jump_ft of None \<Rightarrow> True | Some j \<Rightarrow> idx < length j)
      then Some (jump_model_psi jump_ft r q sigma lam kap df idx m) else None)"
  by (simp add: prepareJumpModelCharacteristic_at_def jump_model_psi_def Let_def load_def
      cuCadd_eq cuComplexScalarMult_eq cuConj_eq power2_eq_square complex_eq_iff
      split: option.split)

lemma prepareJumpModelCharacteristic_cell:
  "prepareJumpModelCharacteristic jump_ft r q sigma lam kap df N idx c =
     (if idx < length c \<and> (case jump_ft of None \<Rightarrow> True | Some j \<Rightarrow> idx < length j)
      then Some (c[idx := jump_model_psi jump_ft r q sigma lam kap df idx
                            (frequency_number N idx)])
      else None)"
  by (simp add: prepareJumpModelCharacteristic_def prepareJumpModelCharacteristic_at_eq
      store_def Let_def)

lemma prepareJumpModelCharacteristic_unfolded_cell:
  "prepareJumpModelCharacteristic_unfolded jump_ft r q sigma lam kap df idx c =
     (if idx < length c \<and> (case jump_ft of None \<Rightarrow> True | Some j \<Rightarrow> idx < length j)
      then Some (c[idx := jump_model_psi jump_ft r q sigma lam kap df idx (real idx)])
      else None)"
  by (simp add: prepareJumpModelCharacteristic_unfolded_def prepareJumpModelCharacteristic_at_eq
      store_def)

lemma prepareMertonJumpFT_cell:
  "prepareMertonJumpFT df N s d idx buf =
     (if idx < length buf \<and> True
      then Some (buf[idx := prepareMertonJumpFT_at df s d (frequency_number N idx)]) else None)"
  by (simp add: prepareMertonJumpFT_def store_def Let_def)

lemma prepareMertonJumpFT_unfolded_cell:
  "prepareMertonJumpFT_unfolded df s d idx buf =
     (if idx < length buf \<and> True
      then Some (buf[idx := prepareMertonJumpFT_at df s d (real idx)]) else None)"
  by (simp add: prepareMertonJumpFT_unfolded_def store_def)

lemma prepareKouJumpFT_cell:
  "prepareKouJumpFT df N pr u d idx buf =
     (if idx < length buf \<and> True
      then Some (buf[idx := prepareKouJumpFT_at df pr u d (frequency_number N idx)]) else None)"
  by (simp add: prepareKouJumpFT_def store_def Let_def)

lemma prepareKouJumpFT_unfolded_cell:
  "prepareKouJumpFT_unfolded df pr u d idx buf =
     (if idx < length buf \<and> True
      then Some (buf[idx := prepareKouJumpFT_at df pr u d (real idx)]) else None)"
  by (simp add: prepareKouJumpFT_unfolded_def store_def)

lemma prepareCGMYCharacteristic_cell:
  "prepareCGMYCharacteristic env N df C G M Y gam idx buf =
     (if idx < length buf \<and> True
      then Some (buf[idx := prepareCGMYCharacteristic_at env df C G M Y gam
                              (frequency_number N idx)])
      else None)"
  by (simp add: prepareCGMYCharacteristic_def store_def Let_def)

lemma prepareCGMYCharacteristic_unfolded_cell:
  "prepareCGMYCharacteristic_unfolded env df C G M Y gam idx buf =
     (if idx < length buf \<and> True
      then Some (buf[idx := prepareCGMYCharacteristic_at env df C G M Y gam (real idx)])
      else None)"
  by (simp add: prepareCGMYCharacteristic_unfolded_def store_def)

text \<open>
  For a resolution that is a power of two, every provider is launched with one
  thread for each of the \<open>N\<close> cells: the characteristic field is filled entirely.
\<close>

lemma prepare_characteristic_eq:
  assumes "resolution params = 2 ^ k"
  shows "prepare_characteristic env params =
           Some (characteristic_field env params (frequency_number (resolution params)))"
proof -
  let ?N = "resolution params"
  have n: "nat (max (?N sdiv MAX_BLOCK_SIZE) 1) * nat (min ?N MAX_BLOCK_SIZE) = nat ?N"
    using full_launch_pow2 [OF assms] .
  note fill = launch_fill [OF _ n length_cudaMalloc]
  show ?thesis
  proof (cases "jumpType params")
    case None_jump
    then show ?thesis
      unfolding prepare_characteristic_def Let_def
      by (simp add: fill [OF prepareJumpModelCharacteristic_cell] characteristic_field_def
          jump_field_def)
  next
    case Merton
    then show ?thesis
      unfolding prepare_characteristic_def Let_def
      by (simp add: fill [OF prepareJumpModelCharacteristic_cell] characteristic_field_def
          jump_field_def fill [OF prepareMertonJumpFT_cell])
  next
    case Kou
    then show ?thesis
      unfolding prepare_characteristic_def Let_def
      by (simp add: fill [OF prepareJumpModelCharacteristic_cell] characteristic_field_def
          jump_field_def fill [OF prepareKouJumpFT_cell])
  next
    case CGMY
    then show ?thesis
      unfolding prepare_characteristic_def Let_def
      by (simp add: fill [OF prepareCGMYCharacteristic_cell] characteristic_field_def)
  qed
qed

lemma prepare_characteristic_unfolded_eq:
  assumes "resolution params = 2 ^ k"
  shows "prepare_characteristic_unfolded env params =
           Some (characteristic_field env params real)"
proof -
  let ?N = "resolution params"
  have n: "nat (max (?N sdiv MAX_BLOCK_SIZE) 1) * nat (min ?N MAX_BLOCK_SIZE) = nat ?N"
    using full_launch_pow2 [OF assms] .
  note fill = launch_fill [OF _ n length_cudaMalloc]
  show ?thesis
  proof (cases "jumpType params")
    case None_jump
    then show ?thesis
      unfolding prepare_characteristic_unfolded_def Let_def
      by (simp add: fill [OF prepareJumpModelCharacteristic_unfolded_cell]
          characteristic_field_def jump_field_def)
  next
    case Merton
    then show ?thesis
      unfolding prepare_characteristic_unfolded_def Let_def
      by (simp add: fill [OF prepareJumpModelCharacteristic_unfolded_cell]
          characteristic_field_def jump_field_def fill [OF prepareMertonJumpFT_unfolded_cell])
  next
    case Kou
    then show ?thesis
      unfolding prepare_characteristic_unfolded_def Let_def
      by (simp add: fill [OF prepareJumpModelCharacteristic_unfolded_cell]
          characteristic_field_def jump_field_def fill [OF prepareKouJumpFT_unfolded_cell])
  next
    case CGMY
    then show ?thesis
      unfolding prepare_characteristic_unfolded_def Let_def
      by (simp add: fill [OF prepareCGMYCharacteristic_unfolded_cell] characteristic_field_def)
  qed
qed

lemma length_characteristic_field:
  "length (characteristic_field env params fm) = nat (resolution params)"
  by (simp add: characteristic_field_def)

lemma characteristic_field_nth:
  assumes "i < nat (resolution params)"
  shows "characteristic_field env params fm ! i =
     (if jumpType params = CGMY
      then prepareCGMYCharacteristic_at env (delta_frequency (grid env params))
             (CGMY_C params) (CGMY_G params) (CGMY_M params) (CGMY_Y params)
             (tgamma env (- CGMY_Y params)) (fm i)
      else jump_model_psi (jump_field env params fm)
             (riskFreeRate params) (dividendRate params) (volatility params)
             (jumpMean params) (kappa env params) (delta_frequency (grid env params))
             i (fm i))"
  using assms by (simp add: characteristic_field_def)

lemma prepareJumpModelCharacteristic_None_cong:
  assumes "lam * kap = lam * kap'"
  shows "prepareJumpModelCharacteristic None r q sigma lam kap df N =
         prepareJumpModelCharacteristic None r q sigma lam kap' df N"
proof (intro ext)
  fix idx c
  show "prepareJumpModelCharacteristic None r q sigma lam kap df N idx c =
        prepareJumpModelCharacteristic None r q sigma lam kap' df N idx c"
    using assms
    by (simp only: prepareJumpModelCharacteristic_cell jump_model_psi_def)
qed

text \<open>
  C2.  When no jump model is selected and the resolution is \<open>N = 2\<^sup>k\<close>, the
  characteristic field has \<open>N\<close> bins and the bin \<open>idx\<close> holds
  \<open>-2(\<sigma>\<pi>k)\<^sup>2 - (r + \<lambda>) + i (r - q - \<lambda>\<kappa> - \<sigma>\<^sup>2/2) (2\<pi>k)\<close>, where \<open>k\<close> is \<open>delta_frequency\<close> times
  the frequency number of \<open>idx\<close>, \<open>\<lambda>\<close> is \<^verbatim>\<open>jumpMean\<close> and \<open>\<kappa>\<close> is the value of \<^verbatim>\<open>kappa()\<close>.
  With \<open>\<lambda> = 0\<close> this is \<open>\<Psi>(k) = -2(\<sigma>\<pi>k)\<^sup>2 - r + i (r - q - \<sigma>\<^sup>2/2) (2\<pi>k)\<close>.  A second run
  without a jump model that has the same resolution, rates, volatility and
  \<^verbatim>\<open>jumpMean\<close>, the same product of \<^verbatim>\<open>jumpMean\<close> and \<^verbatim>\<open>kappa()\<close> and the same values of
  \<^verbatim>\<open>x_min()\<close> and \<^verbatim>\<open>x_max()\<close> produces the same characteristic field, whatever the
  Merton, Kou and CGMY parameters of the two runs are.
\<close>

theorem no_jump_characteristic:
  assumes "resolution params = 2 ^ k" and "jumpType params = None_jump"
  shows "(\<exists>c. prepare_characteristic env params = Some c \<and>
             length c = nat (resolution params) \<and>
             (\<forall>idx < nat (resolution params).
                c ! idx =
                  Complex
                    (- 2 * (volatility params * pi *
                            (delta_frequency (grid env params) *
                             frequency_number (resolution params) idx))\<^sup>2
                     - (riskFreeRate params + jumpMean params))
                    ((riskFreeRate params - dividendRate params
                      - jumpMean params * kappa env params - (volatility params)\<^sup>2 / 2) *
                     (2 * pi * (delta_frequency (grid env params) *
                                frequency_number (resolution params) idx))) \<and>
                (jumpMean params = 0 \<longrightarrow>
                   c ! idx =
                     no_jump_psi (volatility params) (riskFreeRate params) (dividendRate params)
                       (delta_frequency (grid env params) *
                        frequency_number (resolution params) idx)))) \<and>
         (\<forall>params'.
            jumpType params' = None_jump \<and>
            resolution params' = resolution params \<and>
            riskFreeRate params' = riskFreeRate params \<and>
            dividendRate params' = dividendRate params \<and>
            volatility params' = volatility params \<and>
            jumpMean params' = jumpMean params \<and>
            jumpMean params' * kappa env params' = jumpMean params * kappa env params \<and>
            x_min env params' = x_min env params \<and>
            x_max env params' = x_max env params \<longrightarrow>
            prepare_characteristic env params' = prepare_characteristic env params)"
proof (intro conjI allI impI)
  show "\<exists>c. prepare_characteristic env params = Some c \<and>
             length c = nat (resolution params) \<and>
             (\<forall>idx < nat (resolution params).
                c ! idx =
                  Complex
                    (- 2 * (volatility params * pi *
                            (delta_frequency (grid env params) *
                             frequency_number (resolution params) idx))\<^sup>2
                     - (riskFreeRate params + jumpMean params))
                    ((riskFreeRate params - dividendRate params
                      - jumpMean params * kappa env params - (volatility params)\<^sup>2 / 2) *
                     (2 * pi * (delta_frequency (grid env params) *
                                frequency_number (resolution params) idx))) \<and>
                (jumpMean params = 0 \<longrightarrow>
                   c ! idx =
                     no_jump_psi (volatility params) (riskFreeRate params) (dividendRate params)
                       (delta_frequency (grid env params) *
                        frequency_number (resolution params) idx)))"
    using assms(2)
    by (simp add: prepare_characteristic_eq [OF assms(1)] length_characteristic_field
        characteristic_field_nth jump_field_def jump_model_psi_def no_jump_psi_def)
next
  fix params'
  assume h: "jumpType params' = None_jump \<and>
            resolution params' = resolution params \<and>
            riskFreeRate params' = riskFreeRate params \<and>
            dividendRate params' = dividendRate params \<and>
            volatility params' = volatility params \<and>
            jumpMean params' = jumpMean params \<and>
            jumpMean params' * kappa env params' = jumpMean params * kappa env params \<and>
            x_min env params' = x_min env params \<and>
            x_max env params' = x_max env params"
  have g: "grid env params' = grid env params"
    using h by (simp add: grid_def Let_def)
  have e1: "jumpMean params' = jumpMean params" using h by blast
  have e2: "jumpMean params' * kappa env params' = jumpMean params * kappa env params"
    using h by blast
  have "jumpMean params * kappa env params' = jumpMean params * kappa env params"
    using e2 unfolding e1 .
  then have k: "prepareJumpModelCharacteristic None (riskFreeRate params) (dividendRate params)
              (volatility params) (jumpMean params) (kappa env params')
              (delta_frequency (grid env params)) (resolution params) =
           prepareJumpModelCharacteristic None (riskFreeRate params) (dividendRate params)
              (volatility params) (jumpMean params) (kappa env params)
              (delta_frequency (grid env params)) (resolution params)"
    by (rule prepareJumpModelCharacteristic_None_cong)
  show "prepare_characteristic env params' = prepare_characteristic env params"
    using h assms(2) g k by (simp add: prepare_characteristic_def Let_def)
qed

theorem no_jump_characteristic_witness:
  "resolution (example_params\<lparr>jumpMean := 1\<rparr>) = 2 ^ 1 \<and>
   jumpType (example_params\<lparr>jumpMean := 1\<rparr>) = None_jump \<and>
   (\<exists>c. prepare_characteristic example_env (example_params\<lparr>jumpMean := 1\<rparr>) = Some c \<and>
        length c = 2 \<and> c ! 0 = Complex (- 1) 0 \<and> c ! 1 = Complex (- 1) 0) \<and>
   prepare_characteristic example_env
     (example_params\<lparr>jumpMean := 1, driftRate := 5, mertonNormalStdev := 2,
        kouUpJumpProbability := 1, kouUpRate := 3, kouDownRate := 4,
        CGMY_C := 1, CGMY_G := 2, CGMY_M := 3, CGMY_Y := 4\<rparr>) =
     prepare_characteristic example_env (example_params\<lparr>jumpMean := 1\<rparr>)"
proof -
  let ?p = "example_params\<lparr>jumpMean := 1\<rparr>"
  let ?p' = "example_params\<lparr>jumpMean := 1, driftRate := 5, mertonNormalStdev := 2,
        kouUpJumpProbability := 1, kouUpRate := 3, kouDownRate := 4,
        CGMY_C := 1, CGMY_G := 2, CGMY_M := 3, CGMY_Y := 4\<rparr>"
  have h: "resolution ?p = 2 ^ 1" "jumpType ?p = None_jump"
    by (simp_all add: example_params_def)
  have v: "volatility ?p = 0" "riskFreeRate ?p = 0" "dividendRate ?p = 0" "jumpMean ?p = 1"
    "kappa example_env ?p = 0" "resolution ?p = 2"
    by (simp_all add: example_params_def example_env_def)
  note inst = no_jump_characteristic [OF h, of example_env]
  obtain c where c: "prepare_characteristic example_env ?p = Some c"
    "length c = nat (resolution ?p)"
    "\<forall>idx < nat (resolution ?p).
       c ! idx =
         Complex
           (- 2 * (volatility ?p * pi *
                   (delta_frequency (grid example_env ?p) *
                    frequency_number (resolution ?p) idx))\<^sup>2
            - (riskFreeRate ?p + jumpMean ?p))
           ((riskFreeRate ?p - dividendRate ?p
             - jumpMean ?p * kappa example_env ?p - (volatility ?p)\<^sup>2 / 2) *
            (2 * pi * (delta_frequency (grid example_env ?p) *
                       frequency_number (resolution ?p) idx)))"
    using inst by blast
  have same: "jumpType ?p' = None_jump \<and>
            resolution ?p' = resolution ?p \<and>
            riskFreeRate ?p' = riskFreeRate ?p \<and>
            dividendRate ?p' = dividendRate ?p \<and>
            volatility ?p' = volatility ?p \<and>
            jumpMean ?p' = jumpMean ?p \<and>
            jumpMean ?p' * kappa example_env ?p' = jumpMean ?p * kappa example_env ?p \<and>
            x_min example_env ?p' = x_min example_env ?p \<and>
            x_max example_env ?p' = x_max example_env ?p"
    by (simp add: example_params_def example_env_def)
  have indep: "prepare_characteristic example_env ?p' = prepare_characteristic example_env ?p"
    using inst same by blast
  have "c ! 0 = Complex (- 1) 0" "c ! 1 = Complex (- 1) 0"
    using c(3) by (simp_all add: v)
  then show ?thesis using h c(1,2) indep by (simp add: v)
qed

subsection \<open>A run on two grid points\<close>

lemma upt_2: "[0..<2] = [0, Suc 0]"
  by (simp add: numeral_2_eq_2)

lemma ex_env_simps:
  "x_min example_env p = 0" "x_max example_env p = 1" "kappa example_env p = 0"
  "uninitialized example_env = (\<lambda>_ _. 0)"
  by (simp_all add: example_env_def)

lemma ex_params_simps:
  "startPrice (example_params\<lparr>jumpMean := l\<rparr>) = 1"
  "strikePrice (example_params\<lparr>jumpMean := l\<rparr>) = 0"
  "riskFreeRate (example_params\<lparr>jumpMean := l\<rparr>) = 0"
  "dividendRate (example_params\<lparr>jumpMean := l\<rparr>) = 0"
  "volatility (example_params\<lparr>jumpMean := l\<rparr>) = 0"
  "expiryTime (example_params\<lparr>jumpMean := l\<rparr>) = 1"
  "resolution (example_params\<lparr>jumpMean := l\<rparr>) = 2"
  "timesteps (example_params\<lparr>jumpMean := l\<rparr>) = 1"
  "optionExerciseType (example_params\<lparr>jumpMean := l\<rparr>) = European"
  "optionPayoffType (example_params\<lparr>jumpMean := l\<rparr>) = Call"
  "jumpType (example_params\<lparr>jumpMean := l\<rparr>) = None_jump"
  "jumpMean (example_params\<lparr>jumpMean := l\<rparr>) = l"
  by (simp_all add: example_params_def)

lemma ex_characteristic:
  "prepare_characteristic example_env (example_params\<lparr>jumpMean := l\<rparr>) =
     Some [Complex (- l) 0, Complex (- l) 0]"
  using prepare_characteristic_eq [of "example_params\<lparr>jumpMean := l\<rparr>" 1 example_env]
  by (simp add: ex_params_simps ex_env_simps characteristic_field_def jump_field_def
      jump_model_psi_def upt_2)

text \<open>
  C2, as the claim states it, fails.  With \<^verbatim>\<open>jumpMean = 1\<close> and no jump model
  selected, in the run on two grid points, both bins of the characteristic field
  are \<open>-1\<close>, whereas \<open>\<Psi>(k) = -2(\<sigma>\<pi>k)\<^sup>2 - r + i (r - q - \<sigma>\<^sup>2/2) (2\<pi>k)\<close> is \<open>0\<close> at bin 0: the
  characteristic depends on the jump intensity.
\<close>

theorem no_jump_characteristic_uses_jumpMean:
  "jumpType (example_params\<lparr>jumpMean := 1\<rparr>) = None_jump \<and>
   prepare_characteristic example_env (example_params\<lparr>jumpMean := 1\<rparr>) =
     Some [Complex (- 1) 0, Complex (- 1) 0] \<and>
   no_jump_psi (volatility (example_params\<lparr>jumpMean := 1\<rparr>))
     (riskFreeRate (example_params\<lparr>jumpMean := 1\<rparr>))
     (dividendRate (example_params\<lparr>jumpMean := 1\<rparr>))
     (delta_frequency (grid example_env (example_params\<lparr>jumpMean := 1\<rparr>)) *
      frequency_number (resolution (example_params\<lparr>jumpMean := 1\<rparr>)) 0) = Complex 0 0 \<and>
   Complex (- 1) 0 \<noteq> Complex 0 0"
  by (simp add: ex_characteristic ex_params_simps no_jump_psi_def)

subsection \<open>The branch on the thread index\<close>

lemma jump_field_nth_cong:
  assumes "i < nat (resolution params)" and "fm i = fm' i"
  shows "(case jump_field env params fm of None \<Rightarrow> 0
            | Some j \<Rightarrow> complex_of_real l * cnj (j ! i)) =
         (case jump_field env params fm' of None \<Rightarrow> 0
            | Some j \<Rightarrow> complex_of_real l * cnj (j ! i))"
  using assms by (simp add: jump_field_def)

lemma characteristic_field_nth_cong:
  assumes "i < nat (resolution params)" and "fm i = fm' i"
  shows "characteristic_field env params fm ! i = characteristic_field env params fm' ! i"
  using assms(2)
    jump_field_nth_cong [where i = i and params = params and fm = fm and fm' = fm' and env = env,
      OF assms]
  by (simp add: characteristic_field_nth [OF assms(1)] jump_model_psi_def)

lemma frequency_number_eq:
  assumes "0 < N"
  shows "frequency_number N idx =
           (if idx \<le> nat N div 2 then real idx else real_of_int (int idx - N))"
proof -
  have "N sdiv 2 = N div 2" using assms by (simp add: sdiv_nonneg)
  moreover have "int idx \<le> N div 2 \<longleftrightarrow> idx \<le> nat N div 2" using assms by linarith
  ultimately show ?thesis by (simp add: frequency_number_def)
qed

text \<open>
  C4.  In every provider the frequency number is \<open>m = idx\<close> when \<open>idx \<le> N/2\<close> and
  \<open>m = idx - N\<close> otherwise.  For a resolution \<open>N = 2\<^sup>k\<close> every provider runs one
  thread for each \<open>idx < N\<close>, so the branch \<^verbatim>\<open>m = idx - N\<close> is taken by the threads
  above \<open>N/2\<close>, and the characteristic field holds at every \<open>idx < N\<close> the value
  of the provider at that frequency number.  For \<open>idx \<le> N/2\<close> this is the value
  that the providers without the branch write there.  The bins \<open>idx \<le> N/2\<close> of the
  frequency field that the spectral propagator returns are the same for the two
  characteristic fields.
\<close>

theorem frequency_fold_below_half:
  assumes "resolution params = 2 ^ k" and "length d_ft = nat (resolution params)"
  shows "thread_indices (max (resolution params sdiv MAX_BLOCK_SIZE) 1)
           (min (resolution params) MAX_BLOCK_SIZE) = [0..<nat (resolution params)] \<and>
         (\<forall>idx. frequency_number (resolution params) idx =
                  (if idx \<le> nat (resolution params) div 2 then real idx
                   else real_of_int (int idx - resolution params))) \<and>
         (\<exists>c c'. prepare_characteristic env params = Some c \<and>
                 prepare_characteristic_unfolded env params = Some c' \<and>
                 c = characteristic_field env params (frequency_number (resolution params)) \<and>
                 c' = characteristic_field env params real \<and>
                 length c = nat (resolution params) \<and> length c' = nat (resolution params) \<and>
                 (\<forall>idx \<le> nat (resolution params) div 2.
                    frequency_number (resolution params) idx = real idx \<and>
                    c ! idx = c' ! idx) \<and>
                 (\<exists>f f'. propagate (resolution params) c from_time to_time d_ft = Some f \<and>
                         propagate (resolution params) c' from_time to_time d_ft = Some f' \<and>
                         (\<forall>idx \<le> nat (resolution params) div 2. f ! idx = f' ! idx)))"
proof -
  let ?N = "resolution params"
  let ?c = "characteristic_field env params (frequency_number ?N)"
  let ?c' = "characteristic_field env params real"
  have pos: "0 < ?N" using pow2_shape [OF assms(1)] by simp
  have T: "nat ?N div 2 + 1 \<le> fourier_threads ?N" "fourier_threads ?N \<le> nat ?N"
    using fourier_threads_pow2 [OF assms(1)] by simp_all
  have half: "idx < nat ?N" if "idx \<le> nat ?N div 2" for idx
    using that T by linarith
  have agree: "frequency_number ?N idx = real idx \<and> ?c ! idx = ?c' ! idx"
    if "idx \<le> nat ?N div 2" for idx
    using frequency_number_low [OF pos that]
      characteristic_field_nth_cong [OF half [OF that], of "frequency_number ?N" real env]
    by simp
  have ti: "thread_indices (max (?N sdiv MAX_BLOCK_SIZE) 1) (min ?N MAX_BLOCK_SIZE) =
      [0..<nat ?N]"
    by (simp add: thread_indices_upt full_launch_pow2 [OF assms(1)])
  have fn: "\<forall>idx. frequency_number ?N idx =
                  (if idx \<le> nat ?N div 2 then real idx else real_of_int (int idx - ?N))"
    using frequency_number_eq [OF pos] by blast
  let ?f = "map (\<lambda>i. if i < fourier_threads ?N
                    then d_ft ! i * exp (complex_of_real (to_time - from_time) * ?c ! i)
                    else d_ft ! i) [0..<length d_ft]"
  let ?f' = "map (\<lambda>i. if i < fourier_threads ?N
                    then d_ft ! i * exp (complex_of_real (to_time - from_time) * ?c' ! i)
                    else d_ft ! i) [0..<length d_ft]"
  have p: "propagate ?N ?c from_time to_time d_ft = Some ?f"
    using T assms(2) by (simp add: propagate_eq length_characteristic_field)
  have p': "propagate ?N ?c' from_time to_time d_ft = Some ?f'"
    using T assms(2) by (simp add: propagate_eq length_characteristic_field)
  have ff: "?f ! idx = ?f' ! idx" if "idx \<le> nat ?N div 2" for idx
    using half [OF that] agree [OF that] assms(2) by simp
  have inner: "\<exists>f f'. propagate ?N ?c from_time to_time d_ft = Some f \<and>
                  propagate ?N ?c' from_time to_time d_ft = Some f' \<and>
                  (\<forall>idx \<le> nat ?N div 2. f ! idx = f' ! idx)"
    using p p' ff by blast
  have "prepare_characteristic env params = Some ?c \<and>
        prepare_characteristic_unfolded env params = Some ?c' \<and>
        length ?c = nat ?N \<and> length ?c' = nat ?N \<and>
        (\<forall>idx \<le> nat ?N div 2. frequency_number ?N idx = real idx \<and> ?c ! idx = ?c' ! idx)"
    using agree
    by (simp add: prepare_characteristic_eq [OF assms(1)]
        prepare_characteristic_unfolded_eq [OF assms(1)] length_characteristic_field)
  with inner ti fn show ?thesis by blast
qed

theorem frequency_fold_below_half_witness:
  "resolution (example_params\<lparr>resolution := 4\<rparr>) = 2 ^ 2 \<and>
   length [1, 1, 1, 1 :: complex] = nat (resolution (example_params\<lparr>resolution := 4\<rparr>)) \<and>
   thread_indices (max (resolution (example_params\<lparr>resolution := 4\<rparr>) sdiv MAX_BLOCK_SIZE) 1)
     (min (resolution (example_params\<lparr>resolution := 4\<rparr>)) MAX_BLOCK_SIZE) =
     [0..<nat (resolution (example_params\<lparr>resolution := 4\<rparr>))] \<and>
   nat (resolution (example_params\<lparr>resolution := 4\<rparr>)) div 2 < 3 \<and>
   3 < nat (resolution (example_params\<lparr>resolution := 4\<rparr>)) \<and>
   frequency_number (resolution (example_params\<lparr>resolution := 4\<rparr>)) 3 = - 1 \<and>
   frequency_number (resolution (example_params\<lparr>resolution := 4\<rparr>)) 2 = 2 \<and>
   (\<exists>c c'. prepare_characteristic example_env (example_params\<lparr>resolution := 4\<rparr>) = Some c \<and>
           prepare_characteristic_unfolded example_env (example_params\<lparr>resolution := 4\<rparr>) =
             Some c' \<and>
           c = characteristic_field example_env (example_params\<lparr>resolution := 4\<rparr>)
                 (frequency_number (resolution (example_params\<lparr>resolution := 4\<rparr>))) \<and>
           c' = characteristic_field example_env (example_params\<lparr>resolution := 4\<rparr>) real \<and>
           length c = nat (resolution (example_params\<lparr>resolution := 4\<rparr>)) \<and>
           length c' = nat (resolution (example_params\<lparr>resolution := 4\<rparr>)) \<and>
           (\<forall>idx \<le> nat (resolution (example_params\<lparr>resolution := 4\<rparr>)) div 2.
              frequency_number (resolution (example_params\<lparr>resolution := 4\<rparr>)) idx =
                real idx \<and>
              c ! idx = c' ! idx) \<and>
           (\<exists>f f'. propagate (resolution (example_params\<lparr>resolution := 4\<rparr>)) c 0 1
                     [1, 1, 1, 1] = Some f \<and>
                   propagate (resolution (example_params\<lparr>resolution := 4\<rparr>)) c' 0 1
                     [1, 1, 1, 1] = Some f' \<and>
                   (\<forall>idx \<le> nat (resolution (example_params\<lparr>resolution := 4\<rparr>)) div 2.
                      f ! idx = f' ! idx)))"
proof -
  let ?p = "example_params\<lparr>resolution := 4\<rparr>"
  have r: "resolution ?p = 4" by (simp add: example_params_def)
  have h: "resolution ?p = 2 ^ 2" "length [1, 1, 1, 1 :: complex] = nat (resolution ?p)"
    by (simp_all add: r)
  note inst = frequency_fold_below_half [OF h, of example_env 0 1]
  have fn: "frequency_number (resolution ?p) idx =
              (if idx \<le> nat (resolution ?p) div 2 then real idx
               else real_of_int (int idx - resolution ?p))" for idx
    using inst by blast
  have f3: "frequency_number (resolution ?p) 3 = - 1"
    unfolding fn [of 3] by (simp add: r)
  have f2: "frequency_number (resolution ?p) 2 = 2"
    unfolding fn [of 2] by (simp add: r)
  have n: "nat (resolution ?p) div 2 < 3" "3 < nat (resolution ?p)"
    by (simp_all add: r)
  show ?thesis
    using h inst f3 f2 n by blast
qed

text \<open>
  C4, as the claim states it, fails.  For \<open>N = 4\<close> the providers run the thread
  \<open>idx = 3\<close>, for which \<open>idx \<le> N/2\<close> does not hold and the frequency number is
  \<open>3 - 4 = -1\<close>: the branch is not dead code.  For \<open>N = 2048\<close> the launch of the
  spectral propagator has 2048 threads; the thread \<open>idx = 1025\<close>, above \<open>N/2\<close>, reads
  a characteristic value that differs from the one computed without the branch.
\<close>

theorem frequency_fold_is_live:
  "3 \<in> set (thread_indices (max (4 sdiv MAX_BLOCK_SIZE) 1) (min 4 MAX_BLOCK_SIZE)) \<and>
   \<not> int 3 \<le> 4 sdiv 2 \<and>
   frequency_number 4 3 = - 1 \<and>
   1025 < fourier_threads 2048 \<and>
   \<not> int 1025 \<le> 2048 sdiv 2 \<and>
   prepareJumpModelCharacteristic_at None 0 0 1 0 0 1 1025 (frequency_number 2048 1025) \<noteq>
     prepareJumpModelCharacteristic_at None 0 0 1 0 0 1 1025 (real 1025)"
proof -
  have "fourier_threads 2048 = 2048" using fourier_threads_large [of 2048] by simp
  moreover have "(pi * 1023)\<^sup>2 \<noteq> (pi * 1025)\<^sup>2"
    by (simp add: power_mult_distrib)
  ultimately show ?thesis
    by (simp add: thread_indices_upt MAX_BLOCK_SIZE_def sdiv_nonneg frequency_number_def
        prepareJumpModelCharacteristic_at_eq jump_model_psi_def)
qed

subsection \<open>The price without jumps\<close>

lemma normalize_cell:
  "normalize len idx ft =
     (if idx < length ft \<and> True then Some (ft[idx := ft ! idx / real_of_int len]) else None)"
  by (simp add: normalize_def load_def store_def)

lemma launch_normalize:
  "launch g b (normalize len) ft =
     (if nat g * nat b \<le> length ft
      then Some (map (\<lambda>i. if i < nat g * nat b then ft ! i / real_of_int len else ft ! i)
                   [0..<length ft])
      else None)"
  using launch_cellwise [of "normalize len" "\<lambda>_. True" "\<lambda>idx v. v / real_of_int len" g b ft,
      OF normalize_cell]
  by simp

lemma cis_minus_pi: "cis (- pi) = - 1"
  by (simp add: complex_eq_iff)

lemma cufftExecD2Z_2:
  "cufftExecD2Z 2 [a, b] [u, v] = Some [complex_of_real (a + b), complex_of_real (a - b)]"
  by (simp add: cufftExecD2Z_def upt_2 cis_minus_pi)

lemma cufftExecZ2D_2:
  "cufftExecZ2D 2 [X, Y] [u, v] = Some [Re X + Re Y, Re X - Re Y]"
  by (simp add: cufftExecZ2D_def hermitian_bin_def upt_2)

lemma fourier_threads_2: "fourier_threads 2 = 2"
  using fourier_threads_small [of 2] by simp

lemma ex_payoff:
  "optionValuesAtPayoff (example_params\<lparr>jumpMean := l\<rparr>)
     (assetPricesAtPayoff example_env (example_params\<lparr>jumpMean := l\<rparr>)) = Some [1, exp 1]"
  by (simp add: optionValuesAtPayoff_def assetPricesAtPayoff_def Let_def ex_env_simps
      ex_params_simps upt_2)

lemma ex_timestep:
  "timestep example_env (example_params\<lparr>jumpMean := l\<rparr>)
     [Complex (- l) 0, Complex (- l) 0] 0 ([1, exp 1], [0, 0]) =
   Some ([exp (- l), exp 1 * exp (- l)],
         [complex_of_real (1 + exp 1) * exp (Complex (- l) 0),
          complex_of_real (1 - exp 1) * exp (Complex (- l) 0)])"
  apply (simp add: timestep_def Let_def ex_params_simps ex_env_simps cufftExecD2Z_2)
  apply (simp add: propagate_eq fourier_threads_2 upt_2 cufftExecZ2D_2)
  apply (simp add: launch_normalize MAX_BLOCK_SIZE_def upt_2 exercise_def ex_params_simps Let_def)
  apply (simp add: Re_exp Im_exp algebra_simps)
  done

lemma ex_extract:
  "extract_price example_env (example_params\<lparr>jumpMean := l\<rparr>) (a # as) = Some a"
  by (simp add: extract_price_def answer_index_def int_cast_def ex_env_simps ex_params_simps)

lemma ex_price:
  "price example_env (example_params\<lparr>jumpMean := l\<rparr>) = Some (exp (- l))"
  by (simp add: price_def ex_payoff computeGPU_def Let_def ex_params_simps ex_characteristic
      cudaMalloc_def ex_env_simps upt_2 ex_timestep ex_extract)

text \<open>
  C8.  Two runs without a jump model that agree on the start price, the strike,
  the rates, the volatility, the expiry time, the resolution, the number of
  timesteps, the option style and the payoff type, and also on \<^verbatim>\<open>jumpMean\<close>, on
  the product of \<^verbatim>\<open>jumpMean\<close> and \<^verbatim>\<open>kappa()\<close> (as they do when \<^verbatim>\<open>jumpMean\<close> is zero)
  and on the values of \<^verbatim>\<open>x_min()\<close> and \<^verbatim>\<open>x_max()\<close>, print the same price (or abort
  alike), whatever the Merton drift and deviation, the Kou parameters and the
  CGMY parameters of the two runs are.
\<close>

theorem no_jump_price_noninterference:
  assumes "jumpType p = None_jump" and "jumpType p' = None_jump"
    and "startPrice p = startPrice p'" and "strikePrice p = strikePrice p'"
    and "riskFreeRate p = riskFreeRate p'" and "dividendRate p = dividendRate p'"
    and "volatility p = volatility p'" and "expiryTime p = expiryTime p'"
    and "resolution p = resolution p'" and "timesteps p = timesteps p'"
    and "optionExerciseType p = optionExerciseType p'"
    and "optionPayoffType p = optionPayoffType p'"
    and "jumpMean p = jumpMean p'"
    and "jumpMean p * kappa env p = jumpMean p' * kappa env p'"
    and "x_min env p = x_min env p'" and "x_max env p = x_max env p'"
  shows "price env p = price env p'"
proof -
  have g: "grid env p = grid env p'"
    using assms(9,15,16) by (simp add: grid_def Let_def)
  have pay: "optionValuesAtPayoff p (assetPricesAtPayoff env p) =
             optionValuesAtPayoff p' (assetPricesAtPayoff env p')"
    using assms(3,4,9,12,15,16)
    by (simp add: optionValuesAtPayoff_def assetPricesAtPayoff_def Let_def)
  have "jumpMean p' * kappa env p = jumpMean p' * kappa env p'"
    using assms(13,14) by simp
  then have k: "prepareJumpModelCharacteristic None (riskFreeRate p') (dividendRate p')
              (volatility p') (jumpMean p') (kappa env p) (delta_frequency (grid env p'))
              (resolution p') =
           prepareJumpModelCharacteristic None (riskFreeRate p') (dividendRate p')
              (volatility p') (jumpMean p') (kappa env p') (delta_frequency (grid env p'))
              (resolution p')"
    by (rule prepareJumpModelCharacteristic_None_cong)
  have ch: "prepare_characteristic env p = prepare_characteristic env p'"
    using assms(1,2,5,6,7,9,13) g k by (simp add: prepare_characteristic_def Let_def)
  have ex: "exercise env p = exercise env p'"
  proof
    fix d
    show "exercise env p d = exercise env p' d"
      using assms(3,4,9,11,12) g by (simp add: exercise_def Let_def)
  qed
  have ts: "timestep env p = timestep env p'"
  proof (intro ext)
    fix c i mem
    show "timestep env p c i mem = timestep env p' c i mem"
      using assms(8,9,10) ex by (simp add: timestep_def Let_def)
  qed
  have xp: "extract_price env p = extract_price env p'"
  proof
    fix vs
    show "extract_price env p vs = extract_price env p' vs"
      using assms(9,15,16) by (simp add: extract_price_def answer_index_def)
  qed
  have "computeGPU env p = computeGPU env p'"
  proof
    fix vs
    show "computeGPU env p vs = computeGPU env p' vs"
      using assms(9,10) ch ts xp by (simp add: computeGPU_def Let_def)
  qed
  with pay show ?thesis by (simp add: price_def)
qed

theorem no_jump_price_noninterference_witness:
  "jumpType (example_params\<lparr>jumpMean := 0\<rparr>) = None_jump \<and>
   jumpType (example_params\<lparr>jumpMean := 0, driftRate := 5, mertonNormalStdev := 2,
      kouUpJumpProbability := 1, kouUpRate := 3, kouDownRate := 4,
      CGMY_C := 1, CGMY_G := 2, CGMY_M := 3, CGMY_Y := 4\<rparr>) = None_jump \<and>
   price example_env (example_params\<lparr>jumpMean := 0\<rparr>) = Some 1 \<and>
   price example_env
     (example_params\<lparr>jumpMean := 0, driftRate := 5, mertonNormalStdev := 2,
        kouUpJumpProbability := 1, kouUpRate := 3, kouDownRate := 4,
        CGMY_C := 1, CGMY_G := 2, CGMY_M := 3, CGMY_Y := 4\<rparr>) = Some 1"
proof -
  let ?p = "example_params\<lparr>jumpMean := 0\<rparr>"
  let ?p' = "example_params\<lparr>jumpMean := 0, driftRate := 5, mertonNormalStdev := 2,
      kouUpJumpProbability := 1, kouUpRate := 3, kouDownRate := 4,
      CGMY_C := 1, CGMY_G := 2, CGMY_M := 3, CGMY_Y := 4\<rparr>"
  have "price example_env ?p = price example_env ?p'"
    by (rule no_jump_price_noninterference) (simp_all add: example_params_def example_env_def)
  moreover have "price example_env ?p = Some 1"
    using ex_price [of 0] by simp
  ultimately show ?thesis by (simp add: example_params_def)
qed

text \<open>
  C8, as the claim states it, fails.  The two runs on two grid points differ in
  \<^verbatim>\<open>jumpMean\<close> only, and neither selects a jump model; the first prints the price
  \<open>1\<close> and the second prints \<open>exp (-1)\<close>.
\<close>

theorem no_jump_price_uses_jumpMean:
  "jumpType (example_params\<lparr>jumpMean := 0\<rparr>) = None_jump \<and>
   jumpType (example_params\<lparr>jumpMean := 1\<rparr>) = None_jump \<and>
   price example_env (example_params\<lparr>jumpMean := 0\<rparr>) = Some 1 \<and>
   price example_env (example_params\<lparr>jumpMean := 1\<rparr>) = Some (exp (- 1)) \<and>
   price example_env (example_params\<lparr>jumpMean := 0\<rparr>) \<noteq>
     price example_env (example_params\<lparr>jumpMean := 1\<rparr>)"
  by (simp add: ex_price ex_params_simps)

end
